theory Spec2Isabelle
  imports Main
begin

section \<open>Python values of the logger module\<close>

text \<open>
  The module under verification is \<^verbatim>\<open>devlop_home/logger.py\<close>. A Python \<^verbatim>\<open>str\<close> is a
  sequence of Unicode code points, so it is modelled as a list of naturals; \<open>ascii\<close>
  embeds an ASCII literal. The markers of the source that are written in Chinese are
  given by their code points.
\<close>

type_synonym ustring = "nat list"

definition ascii :: "string \<Rightarrow> ustring" where
  "ascii s = map of_char s"

text \<open>
  The exceptions that the operations used by the module can raise. \<open>RuntimeError\<close> stands
  for the exception of a push channel that rejects an event.
\<close>

datatype exn = ValueError | KeyError | IndexError | StopIteration | OSError | RuntimeError

subsection \<open>Level registry\<close>

text \<open>
  \<^verbatim>\<open>LEVELS = ["TRACE", "DEBUG", "INFO", "WARNING", "ERROR", "SUCCESS", "SPECIAL"]\<close>
\<close>

definition LEVELS :: "ustring list" where
  "LEVELS = [ascii ''TRACE'', ascii ''DEBUG'', ascii ''INFO'', ascii ''WARNING'',
             ascii ''ERROR'', ascii ''SUCCESS'', ascii ''SPECIAL'']"

text \<open>\<^verbatim>\<open>list.index(x)\<close>: the position of the first element equal to \<open>x\<close>, ValueError when there is none.\<close>

fun list_index :: "'a list \<Rightarrow> 'a \<Rightarrow> exn + nat" where
  "list_index [] x = Inl ValueError"
| "list_index (y # ys) x =
     (if y = x then Inr 0
      else (case list_index ys x of Inl e \<Rightarrow> Inl e | Inr n \<Rightarrow> Inr (Suc n)))"

text \<open>
  \<^verbatim>\<open>
  def should_log(level, target_level):
      return LEVELS.index(level) >= LEVELS.index(target_level)
  \<close>
\<close>

definition should_log :: "ustring \<Rightarrow> ustring \<Rightarrow> exn + bool" where
  "should_log level target_level =
     (case list_index LEVELS level of
        Inl e \<Rightarrow> Inl e
      | Inr a \<Rightarrow>
          (case list_index LEVELS target_level of
             Inl e \<Rightarrow> Inl e
           | Inr b \<Rightarrow> Inr (a \<ge> b)))"

text \<open>
  The specification's side of the level registry: the seven severities, their names and
  their rank in the ordering TRACE < DEBUG < INFO < WARNING < ERROR < SUCCESS < SPECIAL.
\<close>

datatype severity = TRACE | DEBUG | INFO | WARNING | ERROR | SUCCESS | SPECIAL

fun severity_name :: "severity \<Rightarrow> ustring" where
  "severity_name TRACE = ascii ''TRACE''"
| "severity_name DEBUG = ascii ''DEBUG''"
| "severity_name INFO = ascii ''INFO''"
| "severity_name WARNING = ascii ''WARNING''"
| "severity_name ERROR = ascii ''ERROR''"
| "severity_name SUCCESS = ascii ''SUCCESS''"
| "severity_name SPECIAL = ascii ''SPECIAL''"

fun spec_rank :: "severity \<Rightarrow> nat" where
  "spec_rank TRACE = 0"
| "spec_rank DEBUG = 1"
| "spec_rank INFO = 2"
| "spec_rank WARNING = 3"
| "spec_rank ERROR = 4"
| "spec_rank SUCCESS = 5"
| "spec_rank SPECIAL = 6"

subsection \<open>Values\<close>

text \<open>
  The arguments of a log call and the values that \<^verbatim>\<open>json.loads\<close> returns: \<^verbatim>\<open>None\<close>,
  booleans, integers, floats, strings, lists and dicts. A dict is the list of its items
  in iteration order. A float is represented by the text that \<^verbatim>\<open>str\<close> prints for it
  (floating-point arithmetic itself is not modelled; the module only prints floats).
\<close>

datatype pyval =
    PNone
  | PBool bool
  | PInt int
  | PFloat ustring
  | PStr ustring
  | PList (list_val: "pyval list")
  | PDict "(pyval \<times> pyval) list"

text \<open>
  Two library functions are parameters of the model: \<^verbatim>\<open>json.loads\<close> (\<open>None\<close> when it
  raises), and \<^verbatim>\<open>repr\<close> on the strings that need escaping or another quote character
  (see \<open>str_repr\<close>).
\<close>

record builtins =
  json_loads :: "ustring \<Rightarrow> pyval option"
  repr_escaped :: "ustring \<Rightarrow> ustring"

text \<open>\<^verbatim>\<open>sep.join(xs)\<close>\<close>

fun py_join :: "ustring \<Rightarrow> ustring list \<Rightarrow> ustring" where
  "py_join sep [] = []"
| "py_join sep [x] = x"
| "py_join sep (x # y # ys) = x @ sep @ py_join sep (y # ys)"

text \<open>\<^verbatim>\<open>str\<close> of an integer: its decimal digits, with a minus sign when negative.\<close>

fun digits :: "nat \<Rightarrow> ustring" where
  "digits n = (if n < 10 then [48 + n] else digits (n div 10) @ [48 + n mod 10])"

definition int_str :: "int \<Rightarrow> ustring" where
  "int_str n = (if n < 0 then 45 # digits (nat (- n)) else digits (nat n))"

text \<open>
  \<^verbatim>\<open>repr\<close> of a string. A string made of printable ASCII characters other than the
  apostrophe and the backslash, of CJK symbols and punctuation (U+3001 to U+303F) and of
  CJK unified ideographs (U+4E00 to U+9FA5) is printed between apostrophes as it is.
  Every other string is left to the parameter \<open>repr_escaped\<close>.
\<close>

definition repr_plain :: "nat \<Rightarrow> bool" where
  "repr_plain c \<longleftrightarrow>
     (32 \<le> c \<and> c < 127 \<and> c \<noteq> 39 \<and> c \<noteq> 92)
     \<or> (0x3001 \<le> c \<and> c \<le> 0x303F)
     \<or> (0x4E00 \<le> c \<and> c \<le> 0x9FA5)"

definition str_repr :: "builtins \<Rightarrow> ustring \<Rightarrow> ustring" where
  "str_repr bi s = (if list_all repr_plain s then 39 # s @ [39] else repr_escaped bi s)"

text \<open>\<^verbatim>\<open>repr(v)\<close> and \<^verbatim>\<open>str(v)\<close>; they differ on strings only.\<close>

primrec py_repr :: "builtins \<Rightarrow> pyval \<Rightarrow> ustring" where
  "py_repr bi PNone = ascii ''None''"
| "py_repr bi (PBool b) = (if b then ascii ''True'' else ascii ''False'')"
| "py_repr bi (PInt n) = int_str n"
| "py_repr bi (PFloat r) = r"
| "py_repr bi (PStr s) = str_repr bi s"
| "py_repr bi (PList xs) =
     ascii ''['' @ py_join (ascii '', '') (map (py_repr bi) xs) @ ascii '']''"
| "py_repr bi (PDict kvs) =
     ascii ''{''
     @ py_join (ascii '', '')
         (map (\<lambda>(k, v). k @ ascii '': '' @ v) (map (map_prod (py_repr bi) (py_repr bi)) kvs))
     @ ascii ''}''"

definition py_str :: "builtins \<Rightarrow> pyval \<Rightarrow> ustring" where
  "py_str bi v = (case v of PStr s \<Rightarrow> s | _ \<Rightarrow> py_repr bi v)"

text \<open>The \<^verbatim>\<open>isinstance\<close> tests of the module. In Python a \<^verbatim>\<open>bool\<close> is an \<^verbatim>\<open>int\<close>.\<close>

fun is_int_float :: "pyval \<Rightarrow> bool" where
  "is_int_float (PBool b) = True"
| "is_int_float (PInt n) = True"
| "is_int_float (PFloat r) = True"
| "is_int_float v = False"

fun is_str :: "pyval \<Rightarrow> bool" where
  "is_str (PStr s) = True"
| "is_str v = False"

fun is_list :: "pyval \<Rightarrow> bool" where
  "is_list (PList xs) = True"
| "is_list v = False"

definition is_str_int_float :: "pyval \<Rightarrow> bool" where
  "is_str_int_float v = (is_str v \<or> is_int_float v)"

subsection \<open>String operations\<close>

text \<open>\<^verbatim>\<open>s.startswith(p)\<close>, \<^verbatim>\<open>s.endswith(p)\<close> and \<^verbatim>\<open>sub in s\<close>.\<close>

fun startswith :: "ustring \<Rightarrow> ustring \<Rightarrow> bool" where
  "startswith s [] = True"
| "startswith [] (p # ps) = False"
| "startswith (x # xs) (p # ps) = (x = p \<and> startswith xs ps)"

definition endswith :: "ustring \<Rightarrow> ustring \<Rightarrow> bool" where
  "endswith s p = startswith (rev s) (rev p)"

fun py_in :: "ustring \<Rightarrow> ustring \<Rightarrow> bool" where
  "py_in sub [] = (sub = [])"
| "py_in sub (x # xs) = (startswith (x # xs) sub \<or> py_in sub xs)"

text \<open>\<^verbatim>\<open>s.split(c)\<close> for a separator \<open>c\<close> of one character: the pieces between its occurrences.\<close>

fun py_split :: "nat \<Rightarrow> ustring \<Rightarrow> ustring list" where
  "py_split c [] = [[]]"
| "py_split c (x # xs) =
     (if x = c then [] # py_split c xs
      else (x # hd (py_split c xs)) # tl (py_split c xs))"

text \<open>\<^verbatim>\<open>xs[-1]\<close>: IndexError on the empty list.\<close>

definition py_last :: "'a list \<Rightarrow> exn + 'a" where
  "py_last xs = (if xs = [] then Inl IndexError else Inr (last xs))"

text \<open>\<^verbatim>\<open>xs[i]\<close> for an index that is not negative: IndexError out of range.\<close>

definition py_getitem :: "'a list \<Rightarrow> nat \<Rightarrow> exn + 'a" where
  "py_getitem xs i = (if i < length xs then Inr (xs ! i) else Inl IndexError)"

text \<open>\<^verbatim>\<open>next(iter(xs))\<close>: StopIteration when there is no element.\<close>

definition py_next :: "'a list \<Rightarrow> exn + 'a" where
  "py_next xs = (case xs of [] \<Rightarrow> Inl StopIteration | x # _ \<Rightarrow> Inr x)"

text \<open>
  \<^verbatim>\<open>s.strip()\<close> removes the leading and trailing characters for which \<^verbatim>\<open>str.isspace\<close>
  holds: the characters whose bidirectional class is WS, B or S, or whose category is Zs.
\<close>

definition py_isspace :: "nat \<Rightarrow> bool" where
  "py_isspace c \<longleftrightarrow>
     (0x09 \<le> c \<and> c \<le> 0x0D) \<or> (0x1C \<le> c \<and> c \<le> 0x20) \<or> c = 0x85 \<or> c = 0xA0
     \<or> c = 0x1680 \<or> (0x2000 \<le> c \<and> c \<le> 0x200A) \<or> c = 0x2028 \<or> c = 0x2029
     \<or> c = 0x202F \<or> c = 0x205F \<or> c = 0x3000"

definition py_strip :: "ustring \<Rightarrow> ustring" where
  "py_strip s = rev (dropWhile py_isspace (rev (dropWhile py_isspace s)))"

subsection \<open>Dict operations\<close>

text \<open>\<^verbatim>\<open>k in d\<close>, \<^verbatim>\<open>d[k]\<close> (KeyError when absent) and \<^verbatim>\<open>d.values()\<close>.\<close>

definition dict_contains :: "(pyval \<times> pyval) list \<Rightarrow> pyval \<Rightarrow> bool" where
  "dict_contains d k = (map_of d k \<noteq> None)"

definition dict_getitem :: "(pyval \<times> pyval) list \<Rightarrow> pyval \<Rightarrow> exn + pyval" where
  "dict_getitem d k = (case map_of d k of None \<Rightarrow> Inl KeyError | Some v \<Rightarrow> Inr v)"

definition dict_values :: "(pyval \<times> pyval) list \<Rightarrow> pyval list" where
  "dict_values d = map snd d"

section \<open>The value extractor\<close>

text \<open>
  The loops of \<^verbatim>\<open>_extract_value_from_tool_result\<close>. A loop that returns from inside its
  body gives \<open>Some\<close> of the returned value, and \<open>None\<close> when it runs to its end.

  \<^verbatim>\<open>
  for key in ['by_seconds', 'seconds']:
      if key in r:
          return str(r[key])
  \<close>
\<close>

fun seconds_loop ::
  "builtins \<Rightarrow> (pyval \<times> pyval) list \<Rightarrow> ustring list \<Rightarrow> (exn + ustring) option" where
  "seconds_loop bi r [] = None"
| "seconds_loop bi r (key # keys) =
     (if dict_contains r (PStr key) then
        Some (case dict_getitem r (PStr key) of
                Inl e \<Rightarrow> Inl e
              | Inr v \<Rightarrow> Inr (py_str bi v))
      else seconds_loop bi r keys)"

text \<open>
  \<^verbatim>\<open>
  for v in r.values():
      if isinstance(v, (str, int, float)):
          return str(v)
  \<close>
\<close>

fun scalar_loop :: "builtins \<Rightarrow> pyval list \<Rightarrow> ustring option" where
  "scalar_loop bi [] = None"
| "scalar_loop bi (v # vs) =
     (if is_str_int_float v then Some (py_str bi v) else scalar_loop bi vs)"

text \<open>
  \<^verbatim>\<open>
  for suffix in ['_sum', '_avg', '_min', '_max', '_count']:
      for k, v in d.items():
          if isinstance(k, str) and k.endswith(suffix):
              return str(v)
  \<close>
\<close>

fun items_loop :: "builtins \<Rightarrow> ustring \<Rightarrow> (pyval \<times> pyval) list \<Rightarrow> ustring option" where
  "items_loop bi suffix [] = None"
| "items_loop bi suffix ((k, v) # kvs) =
     (if (case k of PStr ks \<Rightarrow> endswith ks suffix | _ \<Rightarrow> False) then Some (py_str bi v)
      else items_loop bi suffix kvs)"

fun suffix_loop :: "builtins \<Rightarrow> (pyval \<times> pyval) list \<Rightarrow> ustring list \<Rightarrow> ustring option" where
  "suffix_loop bi d [] = None"
| "suffix_loop bi d (suffix # suffixes) =
     (case items_loop bi suffix d of
        Some s \<Rightarrow> Some s
      | None \<Rightarrow> suffix_loop bi d suffixes)"

text \<open>
  The function from \<^verbatim>\<open>if 'result' in d:\<close> to its end, for the dict \<open>d\<close>.
  \<^verbatim>\<open>
  if 'result' in d:
      r = d['result']
      if isinstance(r, dict):
          (seconds_loop)
          (scalar_loop)
          return str(r)
      else:
          return str(r)
  (suffix_loop)
  if len(d) == 1:
      return str(next(iter(d.values())))
  return str(d)
  \<close>
\<close>

definition extract_dict :: "builtins \<Rightarrow> (pyval \<times> pyval) list \<Rightarrow> exn + ustring" where
  "extract_dict bi d =
     (if dict_contains d (PStr (ascii ''result'')) then
        (case dict_getitem d (PStr (ascii ''result'')) of
           Inl e \<Rightarrow> Inl e
         | Inr r \<Rightarrow>
             (case r of
                PDict rd \<Rightarrow>
                  (case seconds_loop bi rd [ascii ''by_seconds'', ascii ''seconds''] of
                     Some res \<Rightarrow> res
                   | None \<Rightarrow>
                       (case scalar_loop bi (dict_values rd) of
                          Some s \<Rightarrow> Inr s
                        | None \<Rightarrow> Inr (py_str bi r)))
              | _ \<Rightarrow> Inr (py_str bi r)))
      else
        (case suffix_loop bi d
                [ascii ''_sum'', ascii ''_avg'', ascii ''_min'', ascii ''_max'', ascii ''_count''] of
           Some s \<Rightarrow> Inr s
         | None \<Rightarrow>
             if length d = 1 then
               (case py_next (dict_values d) of
                  Inl e \<Rightarrow> Inl e
                | Inr v \<Rightarrow> Inr (py_str bi v))
             else Inr (py_str bi (PDict d))))"

text \<open>
  The function from \<^verbatim>\<open>if not isinstance(data, dict):\<close> on, for the value \<open>data\<close>.
  \<^verbatim>\<open>
  if not isinstance(data, dict):
      return str(data)
  d = data
  if 'output' in d and isinstance(d['output'], dict):
      d = d['output']
  \<close>
\<close>

definition extract_parsed :: "builtins \<Rightarrow> pyval \<Rightarrow> exn + ustring" where
  "extract_parsed bi data =
     (case data of
        PDict d \<Rightarrow>
          (if dict_contains d (PStr (ascii ''output'')) then
             (case dict_getitem d (PStr (ascii ''output'')) of
                Inl e \<Rightarrow> Inl e
              | Inr out \<Rightarrow>
                  (case out of
                     PDict d' \<Rightarrow> extract_dict bi d'
                   | _ \<Rightarrow> extract_dict bi d))
           else extract_dict bi d)
      | _ \<Rightarrow> Inr (py_str bi data))"

text \<open>
  \<^verbatim>\<open>
  def _extract_value_from_tool_result(function_result):
      data = function_result
      if isinstance(data, str):
          try:
              data = json.loads(data)
          except Exception:
              return data
      (extract_parsed)
  \<close>
\<close>

definition extract_value_from_tool_result :: "builtins \<Rightarrow> pyval \<Rightarrow> exn + ustring" where
  "extract_value_from_tool_result bi function_result =
     (case function_result of
        PStr s \<Rightarrow>
          (case json_loads bi s of
             None \<Rightarrow> Inr s
           | Some data \<Rightarrow> extract_parsed bi data)
      | _ \<Rightarrow> extract_parsed bi function_result)"

section \<open>The simplifier\<close>

text \<open>
  The markers of \<^verbatim>\<open>_simplify_for_frontend\<close>, by code point: the two tool-result markers
  (U+3010 followed by the word for "tool function"; the word for "execution result"
  followed by U+3011), the answer marker (the words for "atomic question answer" between
  U+3010 and U+3011), the call marker, the parameters marker, the ideographic full stop
  U+3002 that ends a sentence, and the fullwidth comma U+FF0C that joins list items.
\<close>

definition tool_marker :: ustring where
  "tool_marker = [0x3010, 0x5DE5, 0x5177, 0x51FD, 0x6570]"

definition exec_marker :: ustring where
  "exec_marker = [0x6267, 0x884C, 0x7ED3, 0x679C, 0x3011]"

definition answer_marker :: ustring where
  "answer_marker = [0x3010, 0x539F, 0x5B50, 0x95EE, 0x9898, 0x7B54, 0x6848, 0x3011]"

definition call_marker :: ustring where
  "call_marker = [0x8C03, 0x7528]"

definition param_marker :: ustring where
  "param_marker = [0x53C2, 0x6570]"

definition terminator :: nat where
  "terminator = 0x3002"

definition fullwidth_comma :: ustring where
  "fullwidth_comma = [0xFF0C]"

text \<open>
  \<^verbatim>\<open>
  def join_list(lst):
      try:
          items = []
          for v in lst:
              if isinstance(v, (int, float)):
                  items.append(str(v))
              elif isinstance(v, str):
                  items.append(v)
              else:
                  items.append(str(v))
          return (fullwidth comma).join(items)
      except Exception:
          return str(lst)
  \<close>
\<close>

definition join_item :: "builtins \<Rightarrow> pyval \<Rightarrow> ustring" where
  "join_item bi v =
     (if is_int_float v then py_str bi v
      else (case v of PStr s \<Rightarrow> s | _ \<Rightarrow> py_str bi v))"

definition join_list_try :: "builtins \<Rightarrow> pyval list \<Rightarrow> exn + ustring" where
  "join_list_try bi lst = Inr (py_join fullwidth_comma (map (join_item bi) lst))"

definition join_list :: "builtins \<Rightarrow> pyval list \<Rightarrow> ustring" where
  "join_list bi lst =
     (case join_list_try bi lst of
        Inr s \<Rightarrow> s
      | Inl e \<Rightarrow> py_str bi (PList lst))"

text \<open>
  The generic walk, with the loop variables \<open>i\<close> and \<open>parts\<close> as arguments;
  \<open>list_val b\<close> is the list of the elements of a list \<open>b\<close>.
  \<^verbatim>\<open>
  while i < len(arg_list):
      a = arg_list[i]
      b = arg_list[i + 1] if i + 1 < len(arg_list) else None
      if isinstance(a, str) and isinstance(b, list):
          parts.append(f"{a}{join_list(b)}")
          i += 2
          continue
      if isinstance(a, (int, float, str)):
          parts.append(str(a))
      i += 1
  \<close>
\<close>

function walk :: "builtins \<Rightarrow> pyval list \<Rightarrow> nat \<Rightarrow> ustring list \<Rightarrow> exn + ustring list" where
  "walk bi arg_list i parts =
     (if i < length arg_list then
        (case py_getitem arg_list i of
           Inl e \<Rightarrow> Inl e
         | Inr a \<Rightarrow>
             (case (if i + 1 < length arg_list then py_getitem arg_list (i + 1) else Inr PNone) of
                Inl e \<Rightarrow> Inl e
              | Inr b \<Rightarrow>
                  if is_str a \<and> is_list b then
                    walk bi arg_list (i + 2) (parts @ [py_str bi a @ join_list bi (list_val b)])
                  else
                    walk bi arg_list (i + 1)
                      (if is_str_int_float a then parts @ [py_str bi a] else parts)))
      else Inr parts)"
  by pat_completeness auto
termination
  by (relation "measure (\<lambda>(bi, arg_list, i, parts). length arg_list - i)") auto

text \<open>
  The body of the \<^verbatim>\<open>try\<close> statement of \<^verbatim>\<open>_simplify_for_frontend\<close>. \<open>head\<close> is a string
  by its type, so the tests \<^verbatim>\<open>isinstance(head, str)\<close> of the source are true.
  \<^verbatim>\<open>
  head = args[0] if isinstance(args[0], str) else str(args[0])
  if isinstance(head, str) and (tool_marker in head and exec_marker in head):
      val = _extract_value_from_tool_result(args[1]) if len(args) > 1 else ''
      return f"{head}{val}"
  if isinstance(head, str) and (answer_marker in head) and len(args) > 1:
      text = str(args[1])
      if (call_marker in text and param_marker in text and terminator in text):
          simple = text.split(terminator)[-1].strip()
      else:
          simple = text
      return f"{head}{simple}"
  parts = []; i = 0; arg_list = list(args)
  (walk)
  return ' '.join(parts)
  \<close>
\<close>

definition simplify_rules :: "builtins \<Rightarrow> pyval list \<Rightarrow> exn + ustring" where
  "simplify_rules bi args =
     (case py_getitem args 0 of
        Inl e \<Rightarrow> Inl e
      | Inr a0 \<Rightarrow>
          (let head = (case a0 of PStr s \<Rightarrow> s | _ \<Rightarrow> py_str bi a0) in
           if py_in tool_marker head \<and> py_in exec_marker head then
             (case (if length args > 1 then
                      (case py_getitem args 1 of
                         Inl e \<Rightarrow> Inl e
                       | Inr a1 \<Rightarrow> extract_value_from_tool_result bi a1)
                    else Inr []) of
                Inl e \<Rightarrow> Inl e
              | Inr val \<Rightarrow> Inr (head @ val))
           else if py_in answer_marker head \<and> length args > 1 then
             (case py_getitem args 1 of
                Inl e \<Rightarrow> Inl e
              | Inr a1 \<Rightarrow>
                  (let text = py_str bi a1 in
                   if py_in call_marker text \<and> py_in param_marker text \<and> py_in [terminator] text then
                     (case py_last (py_split terminator text) of
                        Inl e \<Rightarrow> Inl e
                      | Inr t \<Rightarrow> Inr (head @ py_strip t))
                   else Inr (head @ text)))
           else
             (case walk bi args 0 [] of
                Inl e \<Rightarrow> Inl e
              | Inr parts \<Rightarrow> Inr (py_join (ascii '' '') parts))))"

text \<open>
  \<^verbatim>\<open>
  def _simplify_for_frontend(level: str, args: tuple) -> str:
      if not args:
          return ''
      try:
          (simplify_rules)
      except Exception:
          return ' '.join(map(str, args))
  \<close>
\<close>

definition simplify_for_frontend :: "builtins \<Rightarrow> ustring \<Rightarrow> pyval list \<Rightarrow> ustring" where
  "simplify_for_frontend bi level args =
     (if args = [] then []
      else (case simplify_rules bi args of
              Inr s \<Rightarrow> s
            | Inl e \<Rightarrow> py_join (ascii '' '') (map (py_str bi) args)))"

section \<open>The dispatcher\<close>

text \<open>
  \<^verbatim>\<open>COLORS\<close>: the ANSI escape sequence of each colour name (27 is the escape character).
\<close>

definition COLORS :: "(ustring \<times> ustring) list" where
  "COLORS =
     [(ascii ''red'', 27 # ascii ''[91m''),
      (ascii ''green'', 27 # ascii ''[92m''),
      (ascii ''yellow'', 27 # ascii ''[93m''),
      (ascii ''blue'', 27 # ascii ''[94m''),
      (ascii ''magenta'', 27 # ascii ''[95m''),
      (ascii ''cyan'', 27 # ascii ''[96m''),
      (ascii ''white'', 27 # ascii ''[97m''),
      (ascii ''grey'', 27 # ascii ''[90m''),
      (ascii ''reset'', 27 # ascii ''[0m'')]"

text \<open>
  The module's globals: \<open>socketio\<close> tells whether the global \<^verbatim>\<open>socketio\<close> is not
  \<^verbatim>\<open>None\<close>; \<open>log_file_path\<close> is \<open>None\<close> for \<^verbatim>\<open>None\<close>.
\<close>

record globals =
  socketio :: bool
  console_level :: ustring
  file_level :: ustring
  log_file_path :: "ustring option"

text \<open>
  What a log call does to the outside, in the order in which it does it: an event
  handed to \<^verbatim>\<open>socketio.emit\<close> (its name, then the fields \<^verbatim>\<open>level\<close>, \<^verbatim>\<open>message\<close> and
  \<^verbatim>\<open>color\<close> of its payload), a text printed to \<^verbatim>\<open>sys.stdout\<close>, and the opening in
  append mode, the writing and the closing of the file at a path.
\<close>

datatype effect =
    Emit ustring ustring ustring ustring
  | Print ustring
  | File_open ustring
  | File_write ustring ustring
  | File_close ustring

text \<open>
  The behaviour of the outside that the call meets: whether \<^verbatim>\<open>socketio.emit\<close>,
  \<^verbatim>\<open>print\<close>, \<^verbatim>\<open>open\<close> and \<^verbatim>\<open>write\<close> raise. The source calls each of them with
  no \<^verbatim>\<open>try\<close> around it. An event handed to \<^verbatim>\<open>socketio.emit\<close> is among the effects also
  when the channel then rejects it.
\<close>

record io_env =
  emit_raises :: bool
  print_raises :: bool
  open_raises :: bool
  write_raises :: bool

text \<open>
  \<^verbatim>\<open>
  print(f"{COLORS[color]}{log_message}{COLORS['reset']}", end=end, file=sys.stdout)
  \<close>
\<close>

definition console_write ::
  "io_env \<Rightarrow> ustring \<Rightarrow> ustring \<Rightarrow> ustring \<Rightarrow> effect list \<times> exn option" where
  "console_write io color log_message ending =
     (case map_of COLORS color of
        None \<Rightarrow> ([], Some KeyError)
      | Some c \<Rightarrow>
          (case map_of COLORS (ascii ''reset'') of
             None \<Rightarrow> ([], Some KeyError)
           | Some r \<Rightarrow>
               if print_raises io then ([], Some OSError)
               else ([Print (c @ log_message @ r @ ending)], None)))"

text \<open>
  \<^verbatim>\<open>
  with open(log_file_path, "a", encoding="utf-8") as log_file:
      log_file.write(log_message + "\n")
  \<close>
  The \<^verbatim>\<open>with\<close> statement closes the file also when the write raises.
\<close>

definition file_write :: "io_env \<Rightarrow> ustring \<Rightarrow> ustring \<Rightarrow> effect list \<times> exn option" where
  "file_write io path log_message =
     (if open_raises io then ([], Some OSError)
      else if write_raises io then ([File_open path, File_close path], Some OSError)
      else ([File_open path, File_write path (log_message @ [10]), File_close path], None))"

text \<open>
  \<^verbatim>\<open>
  def color_print(level, color, *args, sep=" ", end="\n"):
      timestamp = datetime.datetime.now().strftime("%Y-%m-%d %H:%M:%S.%f")[:-3]
      log_message = f"{timestamp} [{level}] {sep.join(map(str, args))}"
      if level in {"INFO", "SPECIAL"} and socketio is not None:
          simplified = _simplify_for_frontend(level, args)
          socketio.emit('log_message', {'level': level, 'message': simplified, 'color': color})
      if should_log(level, console_level):
          print(...)
      if log_file_path and should_log(level, file_level):
          with open(...) ...
  \<close>
  \<open>now\<close> is the text that \<^verbatim>\<open>strftime\<close> returns for the current time. The result is the
  list of the effects that happened, and the exception that ended the call, if any. An
  exception of \<^verbatim>\<open>socketio.emit\<close> ends the call before both sinks.
\<close>

definition color_print ::
  "builtins \<Rightarrow> io_env \<Rightarrow> globals \<Rightarrow> ustring \<Rightarrow> ustring \<Rightarrow> ustring \<Rightarrow> pyval list \<Rightarrow> ustring \<Rightarrow> ustring
   \<Rightarrow> effect list \<times> exn option" where
  "color_print bi io g now level color args sep ending =
     (let timestamp = take (length now - 3) now;
          log_message = timestamp @ ascii '' ['' @ level @ ascii ''] ''
                          @ py_join sep (map (py_str bi) args);
          pushed = (if (level = ascii ''INFO'' \<or> level = ascii ''SPECIAL'') \<and> socketio g
                    then [Emit (ascii ''log_message'') level
                            (simplify_for_frontend bi level args) color]
                    else [])
      in
        if (level = ascii ''INFO'' \<or> level = ascii ''SPECIAL'') \<and> socketio g \<and> emit_raises io
        then (pushed, Some RuntimeError)
        else
          (case should_log level (console_level g) of
             Inl e \<Rightarrow> (pushed, Some e)
           | Inr to_console \<Rightarrow>
               (case (if to_console then console_write io color log_message ending
                      else ([], None)) of
                  (printed, Some e) \<Rightarrow> (pushed @ printed, Some e)
                | (printed, None) \<Rightarrow>
                    (case log_file_path g of
                       None \<Rightarrow> (pushed @ printed, None)
                     | Some path \<Rightarrow>
                         if path = [] then (pushed @ printed, None)
                         else
                           (case should_log level (file_level g) of
                              Inl e \<Rightarrow> (pushed @ printed, Some e)
                            | Inr to_file \<Rightarrow>
                                if to_file then
                                  (case file_write io path log_message of
                                     (written, r) \<Rightarrow> (pushed @ printed @ written, r))
                                else (pushed @ printed, None))))))"

text \<open>The entry points, one for each severity.\<close>

definition trace ::
  "builtins \<Rightarrow> io_env \<Rightarrow> globals \<Rightarrow> ustring \<Rightarrow> pyval list \<Rightarrow> ustring \<Rightarrow> ustring \<Rightarrow> effect list \<times> exn option" where
  "trace bi io g now args sep ending =
     color_print bi io g now (ascii ''TRACE'') (ascii ''white'') args sep ending"

definition debug ::
  "builtins \<Rightarrow> io_env \<Rightarrow> globals \<Rightarrow> ustring \<Rightarrow> pyval list \<Rightarrow> ustring \<Rightarrow> ustring \<Rightarrow> effect list \<times> exn option" where
  "debug bi io g now args sep ending =
     color_print bi io g now (ascii ''DEBUG'') (ascii ''grey'') args sep ending"

definition info ::
  "builtins \<Rightarrow> io_env \<Rightarrow> globals \<Rightarrow> ustring \<Rightarrow> pyval list \<Rightarrow> ustring \<Rightarrow> ustring \<Rightarrow> effect list \<times> exn option" where
  "info bi io g now args sep ending =
     color_print bi io g now (ascii ''INFO'') (ascii ''blue'') args sep ending"

definition warning ::
  "builtins \<Rightarrow> io_env \<Rightarrow> globals \<Rightarrow> ustring \<Rightarrow> pyval list \<Rightarrow> ustring \<Rightarrow> ustring \<Rightarrow> effect list \<times> exn option" where
  "warning bi io g now args sep ending =
     color_print bi io g now (ascii ''WARNING'') (ascii ''yellow'') args sep ending"

definition error ::
  "builtins \<Rightarrow> io_env \<Rightarrow> globals \<Rightarrow> ustring \<Rightarrow> pyval list \<Rightarrow> ustring \<Rightarrow> ustring \<Rightarrow> effect list \<times> exn option" where
  "error bi io g now args sep ending =
     color_print bi io g now (ascii ''ERROR'') (ascii ''red'') args sep ending"

definition success ::
  "builtins \<Rightarrow> io_env \<Rightarrow> globals \<Rightarrow> ustring \<Rightarrow> pyval list \<Rightarrow> ustring \<Rightarrow> ustring \<Rightarrow> effect list \<times> exn option" where
  "success bi io g now args sep ending =
     color_print bi io g now (ascii ''SUCCESS'') (ascii ''green'') args sep ending"

definition special ::
  "builtins \<Rightarrow> io_env \<Rightarrow> globals \<Rightarrow> ustring \<Rightarrow> pyval list \<Rightarrow> ustring \<Rightarrow> ustring \<Rightarrow> effect list \<times> exn option" where
  "special bi io g now args sep ending =
     color_print bi io g now (ascii ''SPECIAL'') (ascii ''cyan'') args sep ending"

section \<open>The specification's reading of the extractor and the simplifier\<close>

text \<open>
  The value extractor as the specification words it: a key ends in a suffix; the
  \<open>output\<close> key is descended one level; inside a \<open>result\<close> mapping \<open>by_seconds\<close> comes
  first, then \<open>seconds\<close>, then the first scalar value (a string or a number, as the
  source tests it), else the mapping as a string; the aggregate keys are searched suffix
  by suffix over all keys; then a mapping of one entry gives its value; else the mapping
  as a string.
\<close>

definition ends_with_suffix :: "pyval \<Rightarrow> ustring \<Rightarrow> bool" where
  "ends_with_suffix k suffix =
     (case k of
        PStr ks \<Rightarrow> length suffix \<le> length ks \<and> drop (length ks - length suffix) ks = suffix
      | _ \<Rightarrow> False)"

definition spec_descend :: "(pyval \<times> pyval) list \<Rightarrow> (pyval \<times> pyval) list" where
  "spec_descend d =
     (case map_of d (PStr (ascii ''output'')) of
        Some (PDict d') \<Rightarrow> d'
      | _ \<Rightarrow> d)"

definition spec_result_value :: "builtins \<Rightarrow> pyval \<Rightarrow> ustring" where
  "spec_result_value bi r =
     (case r of
        PDict rd \<Rightarrow>
          (case map_of rd (PStr (ascii ''by_seconds'')) of
             Some v \<Rightarrow> py_str bi v
           | None \<Rightarrow>
               (case map_of rd (PStr (ascii ''seconds'')) of
                  Some v \<Rightarrow> py_str bi v
                | None \<Rightarrow>
                    (case filter is_str_int_float (map snd rd) of
                       v # _ \<Rightarrow> py_str bi v
                     | [] \<Rightarrow> py_str bi r)))
      | _ \<Rightarrow> py_str bi r)"

definition spec_aggregate :: "(pyval \<times> pyval) list \<Rightarrow> (pyval \<times> pyval) list" where
  "spec_aggregate d =
     concat (map (\<lambda>suffix. filter (\<lambda>(k, v). ends_with_suffix k suffix) d)
       [ascii ''_sum'', ascii ''_avg'', ascii ''_min'', ascii ''_max'', ascii ''_count''])"

definition spec_extract_mapping :: "builtins \<Rightarrow> (pyval \<times> pyval) list \<Rightarrow> ustring" where
  "spec_extract_mapping bi d0 =
     (let d = spec_descend d0 in
      case map_of d (PStr (ascii ''result'')) of
        Some r \<Rightarrow> spec_result_value bi r
      | None \<Rightarrow>
          (case spec_aggregate d of
             (k, v) # _ \<Rightarrow> py_str bi v
           | [] \<Rightarrow>
               (case d of
                  [(k, v)] \<Rightarrow> py_str bi v
                | _ \<Rightarrow> py_str bi (PDict d))))"

definition spec_extract_value :: "builtins \<Rightarrow> pyval \<Rightarrow> ustring" where
  "spec_extract_value bi x =
     (case x of
        PDict d \<Rightarrow> spec_extract_mapping bi d
      | _ \<Rightarrow> py_str bi x)"

definition spec_extract :: "builtins \<Rightarrow> pyval \<Rightarrow> ustring" where
  "spec_extract bi payload =
     (case payload of
        PStr s \<Rightarrow>
          (case json_loads bi s of
             None \<Rightarrow> s
           | Some x \<Rightarrow> spec_extract_value bi x)
      | _ \<Rightarrow> spec_extract_value bi payload)"

text \<open>The part of a text after the last occurrence of the character \<open>c\<close>.\<close>

definition after_last :: "nat \<Rightarrow> ustring \<Rightarrow> ustring" where
  "after_last c s = rev (takeWhile (\<lambda>x. x \<noteq> c) (rev s))"

text \<open>A mapping among the arguments, emptied; every other argument as it is.\<close>

fun erase_mapping :: "pyval \<Rightarrow> pyval" where
  "erase_mapping (PDict d) = PDict []"
| "erase_mapping v = v"

section \<open>The specification's reading of the dispatcher\<close>

text \<open>The effects that are push events.\<close>

fun is_emit :: "effect \<Rightarrow> bool" where
  "is_emit (Emit name level message color) = True"
| "is_emit e = False"

text \<open>
  The full message of a log line: the timestamp, the severity between brackets, and the
  arguments joined by the separator.
\<close>

definition full_message :: "ustring \<Rightarrow> ustring \<Rightarrow> ustring \<Rightarrow> ustring" where
  "full_message timestamp level joined = timestamp @ ascii '' ['' @ level @ ascii ''] '' @ joined"

text \<open>
  What a sink may receive for a full message: the console the message between the
  colour's escape sequence and the reset sequence, followed by the line end; the file at
  the configured path the message and a newline.
\<close>

fun sink_effect_ok :: "ustring \<Rightarrow> ustring \<Rightarrow> ustring \<Rightarrow> ustring option \<Rightarrow> effect \<Rightarrow> bool" where
  "sink_effect_ok full color ending path (Print t) =
     (case map_of COLORS color of
        None \<Rightarrow> False
      | Some c \<Rightarrow> t = c @ full @ 27 # ascii ''[0m'' @ ending)"
| "sink_effect_ok full color ending path (File_open p) = (path = Some p)"
| "sink_effect_ok full color ending path (File_write p t) = (path = Some p \<and> t = full @ [10])"
| "sink_effect_ok full color ending path (File_close p) = (path = Some p)"
| "sink_effect_ok full color ending path (Emit name level message c) = True"

text \<open>
  The two parts of a log call: the events it pushes, and what the same call does when no
  channel is configured.
\<close>

definition pushed_events :: "builtins \<Rightarrow> globals \<Rightarrow> ustring \<Rightarrow> ustring \<Rightarrow> pyval list \<Rightarrow> effect list" where
  "pushed_events bi g level color args =
     (if (level = ascii ''INFO'' \<or> level = ascii ''SPECIAL'') \<and> socketio g
      then [Emit (ascii ''log_message'') level (simplify_for_frontend bi level args) color]
      else [])"

definition sink_part ::
  "builtins \<Rightarrow> io_env \<Rightarrow> globals \<Rightarrow> ustring \<Rightarrow> ustring \<Rightarrow> ustring \<Rightarrow> pyval list \<Rightarrow> ustring \<Rightarrow> ustring
   \<Rightarrow> effect list \<times> exn option" where
  "sink_part bi io g now level color args sep ending =
     color_print bi io (g\<lparr>socketio := False\<rparr>) now level color args sep ending"

text \<open>The channel rejects the event of the call: the emission ends the call.\<close>

definition emit_rejected :: "io_env \<Rightarrow> globals \<Rightarrow> ustring \<Rightarrow> bool" where
  "emit_rejected io g level \<longleftrightarrow>
     (level = ascii ''INFO'' \<or> level = ascii ''SPECIAL'') \<and> socketio g \<and> emit_raises io"

section \<open>Facts about strings\<close>

declare walk.simps [simp del]

declare digits.simps [simp del]

lemma ascii_eq_iff [simp]: "ascii s = ascii t \<longleftrightarrow> s = t"
proof -
  have "inj (of_char :: char \<Rightarrow> nat)"
    by (rule injI) simp
  then show ?thesis
    unfolding ascii_def by simp
qed

lemma ascii_Nil [simp]: "ascii [] = []"
  by (simp add: ascii_def)

lemma ascii_append: "ascii (s @ t) = ascii s @ ascii t"
  by (simp add: ascii_def)

section \<open>The level registry\<close>

lemma index_severity_name:
  "list_index LEVELS (severity_name a) = Inr (spec_rank a)"
  by (cases a) (simp_all add: LEVELS_def)

text \<open>
  Claim C7. For every pair of the seven severity names, \<open>should_log a b\<close> returns (without
  raising) the truth value of "the rank of \<open>a\<close> is at least the rank of \<open>b\<close>" in the
  ordering TRACE < DEBUG < INFO < WARNING < ERROR < SUCCESS < SPECIAL; in particular
  it is true for ("ERROR", "INFO") and false for ("TRACE", "DEBUG").
\<close>

theorem should_log_rank:
  "should_log (severity_name a) (severity_name b) = Inr (spec_rank a \<ge> spec_rank b)
   \<and> should_log (ascii ''ERROR'') (ascii ''INFO'') = Inr True
   \<and> should_log (ascii ''TRACE'') (ascii ''DEBUG'') = Inr False"
proof -
  have general: "should_log (severity_name x) (severity_name y) = Inr (spec_rank x \<ge> spec_rank y)"
    for x y
    by (simp add: should_log_def index_severity_name)
  have "should_log (ascii ''ERROR'') (ascii ''INFO'') = Inr True"
    using general [of ERROR INFO] by simp
  moreover have "should_log (ascii ''TRACE'') (ascii ''DEBUG'') = Inr False"
    using general [of TRACE DEBUG] by simp
  ultimately show ?thesis
    using general by simp
qed

section \<open>The value extractor\<close>

lemma startswith_iff: "startswith s p \<longleftrightarrow> take (length p) s = p \<and> length p \<le> length s"
  by (induction s p rule: startswith.induct) auto

lemma endswith_iff:
  "endswith s p \<longleftrightarrow> length p \<le> length s \<and> drop (length s - length p) s = p"
proof -
  have "take (length p) (rev s) = rev p \<longleftrightarrow> rev (take (length p) (rev s)) = p"
    by (simp add: rev_swap)
  then show ?thesis
    by (auto simp: endswith_def startswith_iff rev_take)
qed

lemma endswith_append: "endswith s p \<longleftrightarrow> (\<exists>q. s = q @ p)"
proof
  assume "endswith s p"
  then have "s = take (length s - length p) s @ p"
    by (metis append_take_drop_id endswith_iff)
  then show "\<exists>q. s = q @ p" ..
next
  assume "\<exists>q. s = q @ p"
  then show "endswith s p"
    by (auto simp: endswith_iff)
qed

lemma dict_getitem_Some: "map_of d k = Some v \<Longrightarrow> dict_contains d k \<and> dict_getitem d k = Inr v"
  by (simp add: dict_contains_def dict_getitem_def)

lemma dict_contains_None: "map_of d k = None \<Longrightarrow> \<not> dict_contains d k"
  by (simp add: dict_contains_def)

lemma seconds_loop_two:
  "seconds_loop bi rd [a, b] =
     (case map_of rd (PStr a) of
        Some v \<Rightarrow> Some (Inr (py_str bi v))
      | None \<Rightarrow>
          (case map_of rd (PStr b) of
             Some v \<Rightarrow> Some (Inr (py_str bi v))
           | None \<Rightarrow> None))"
  by (simp add: dict_contains_def dict_getitem_def split: option.splits)

lemma scalar_loop_filter:
  "scalar_loop bi vs = (case filter is_str_int_float vs of [] \<Rightarrow> None | v # _ \<Rightarrow> Some (py_str bi v))"
  by (induction vs) auto

lemma items_loop_filter:
  "items_loop bi suffix d =
     (case filter (\<lambda>(k, v). ends_with_suffix k suffix) d of
        [] \<Rightarrow> None
      | (k, v) # _ \<Rightarrow> Some (py_str bi v))"
  by (induction d) (auto simp: ends_with_suffix_def endswith_iff split: pyval.splits)

lemma suffix_loop_concat:
  "suffix_loop bi d suffixes =
     (case concat (map (\<lambda>suffix. filter (\<lambda>(k, v). ends_with_suffix k suffix) d) suffixes) of
        [] \<Rightarrow> None
      | (k, v) # _ \<Rightarrow> Some (py_str bi v))"
proof (induction suffixes)
  case Nil
  show ?case by simp
next
  case (Cons a suffixes)
  show ?case
  proof (cases "filter (\<lambda>(k, v). ends_with_suffix k a) d")
    case Nil
    then show ?thesis
      using Cons.IH by (simp add: items_loop_filter)
  next
    case (Cons kv rest)
    then show ?thesis
      by (cases kv) (simp add: items_loop_filter)
  qed
qed

lemma extract_dict_spec:
  "extract_dict bi d =
     Inr (case map_of d (PStr (ascii ''result'')) of
            Some r \<Rightarrow> spec_result_value bi r
          | None \<Rightarrow>
              (case spec_aggregate d of
                 (k, v) # _ \<Rightarrow> py_str bi v
               | [] \<Rightarrow>
                   (case d of
                      [(k, v)] \<Rightarrow> py_str bi v
                    | _ \<Rightarrow> py_str bi (PDict d))))"
proof (cases "map_of d (PStr (ascii ''result''))")
  case None
  then show ?thesis
    by (auto simp: extract_dict_def dict_contains_def suffix_loop_concat spec_aggregate_def
        py_next_def dict_values_def split: list.splits)
next
  case (Some r)
  then show ?thesis
    by (auto simp: extract_dict_def dict_contains_def dict_getitem_def spec_result_value_def
        seconds_loop_two scalar_loop_filter dict_values_def split: pyval.splits option.splits list.splits)
qed

lemma extract_parsed_spec: "extract_parsed bi x = Inr (spec_extract_value bi x)"
  by (cases x)
    (auto simp: extract_parsed_def spec_extract_value_def spec_extract_mapping_def spec_descend_def
      extract_dict_spec dict_contains_def dict_getitem_def split: option.splits pyval.splits)

lemma extract_spec: "extract_value_from_tool_result bi x = Inr (spec_extract bi x)"
  by (cases x)
    (auto simp: extract_value_from_tool_result_def spec_extract_def extract_parsed_spec
      spec_extract_value_def split: option.splits)

lemmas extract_eval =
  extract_value_from_tool_result_def extract_parsed_def extract_dict_def dict_contains_def
  dict_getitem_def dict_values_def py_next_def py_str_def is_str_int_float_def endswith_def
  int_str_def digits.simps ascii_def

lemmas marker_defs =
  tool_marker_def exec_marker_def answer_marker_def call_marker_def param_marker_def
  terminator_def

text \<open>
  Claim C3. The value extractor returns, without raising, the value that the
  specification's priority order picks: a string is parsed as JSON and returned as it is
  when parsing fails; a value that is no mapping is turned into a string; a
  mapping-valued \<open>output\<close> is descended one level; inside a \<open>result\<close> mapping \<open>by_seconds\<close>,
  then \<open>seconds\<close>, then the first scalar entry, else the mapping as a string; any other
  \<open>result\<close> as a string; else the value of the first key ending in one of the aggregate
  suffixes, in their order; else the value of a mapping of one entry; else the mapping
  as a string. The three examples give "1149.0", "42" and "ok".
\<close>

theorem extract_value_priority:
  "extract_value_from_tool_result bi payload = Inr (spec_extract bi payload)
   \<and> extract_value_from_tool_result bi
        (PDict [(PStr (ascii ''output''),
                 PDict [(PStr (ascii ''result''),
                         PDict [(PStr (ascii ''by_seconds''), PFloat (ascii ''1149.0'')),
                                (PStr (ascii ''other_unit''), PFloat (ascii ''19.15''))])])])
       = Inr (ascii ''1149.0'')
   \<and> extract_value_from_tool_result bi
        (PDict [(PStr (ascii ''rows_sum''), PInt 42), (PStr (ascii ''label''), PStr (ascii ''x''))])
       = Inr (ascii ''42'')
   \<and> extract_value_from_tool_result bi (PDict [(PStr (ascii ''value''), PStr (ascii ''ok''))])
       = Inr (ascii ''ok'')"
proof -
  have "extract_value_from_tool_result bi
        (PDict [(PStr (ascii ''output''),
                 PDict [(PStr (ascii ''result''),
                         PDict [(PStr (ascii ''by_seconds''), PFloat (ascii ''1149.0'')),
                                (PStr (ascii ''other_unit''), PFloat (ascii ''19.15''))])])])
       = Inr (ascii ''1149.0'')"
    by (simp add: extract_eval)
  moreover have "extract_value_from_tool_result bi
        (PDict [(PStr (ascii ''rows_sum''), PInt 42), (PStr (ascii ''label''), PStr (ascii ''x''))])
       = Inr (ascii ''42'')"
    by (simp add: extract_eval)
  moreover have "extract_value_from_tool_result bi
        (PDict [(PStr (ascii ''value''), PStr (ascii ''ok''))])
       = Inr (ascii ''ok'')"
    by (simp add: extract_eval)
  ultimately show ?thesis
    using extract_spec [of bi payload] by blast
qed

section \<open>The simplifier\<close>


lemma py_split_not_Nil: "py_split c s \<noteq> []"
  by (induction s) auto

lemma walk_end: "\<not> i < length args \<Longrightarrow> walk bi args i parts = Inr parts"
  by (subst walk.simps) simp

lemma walk_pair:
  assumes "i < length args" and "is_str (args ! i)"
    and "i + 1 < length args" and "is_list (args ! (i + 1))"
  shows "walk bi args i parts =
    walk bi args (i + 2) (parts @ [py_str bi (args ! i) @ join_list bi (list_val (args ! (i + 1)))])"
  using assms by (subst walk.simps) (simp add: py_getitem_def)

lemma walk_single:
  assumes "i < length args"
    and "\<not> (is_str (args ! i) \<and> i + 1 < length args \<and> is_list (args ! (i + 1)))"
  shows "walk bi args i parts =
    walk bi args (i + 1) (if is_str_int_float (args ! i) then parts @ [py_str bi (args ! i)] else parts)"
  using assms by (subst walk.simps) (auto simp: py_getitem_def)

lemma walk_returns: "\<exists>ps. walk bi args i parts = Inr ps"
proof (induction "length args - i" arbitrary: i parts rule: less_induct)
  case less
  show ?case
  proof (cases "i < length args")
    case False
    then show ?thesis
      by (simp add: walk_end)
  next
    case True
    show ?thesis
    proof (cases "is_str (args ! i) \<and> i + 1 < length args \<and> is_list (args ! (i + 1))")
      case paired: True
      have "length args - (i + 2) < length args - i"
        using True by simp
      from less [OF this] show ?thesis
        using True paired by (simp add: walk_pair)
    next
      case single: False
      have "length args - (i + 1) < length args - i"
        using True by simp
      from less [OF this] show ?thesis
        using walk_single [OF True single] by simp
    qed
  qed
qed

lemma py_split_absent: "c \<notin> set s \<Longrightarrow> py_split c s = [s]"
  by (induction s) auto

lemma py_split_present: "c \<in> set s \<Longrightarrow> tl (py_split c s) \<noteq> []"
  by (induction s) (auto simp: py_split_not_Nil)

lemma after_last_Cons:
  "after_last c (x # xs) = (if c \<in> set xs then after_last c xs else if x = c then xs else x # xs)"
  by (auto simp: after_last_def takeWhile_append)

lemma last_py_split: "last (py_split c s) = after_last c s"
proof (induction s)
  case Nil
  show ?case by (simp add: after_last_def)
next
  case (Cons x xs)
  show ?case
  proof (cases "c \<in> set xs")
    case True
    have "last (py_split c (x # xs)) = last (py_split c xs)"
      using py_split_present [OF True] py_split_not_Nil [of c xs]
      by (cases "py_split c xs") auto
    then show ?thesis
      using True Cons.IH by (simp add: after_last_Cons)
  next
    case False
    then show ?thesis
      by (simp add: after_last_Cons py_split_absent)
  qed
qed

lemma after_last_decompose:
  "c \<in> set s \<Longrightarrow> \<exists>p. s = p @ c # after_last c s \<and> c \<notin> set (after_last c s)"
proof (induction s)
  case Nil
  then show ?case by simp
next
  case (Cons x xs)
  show ?case
  proof (cases "c \<in> set xs")
    case True
    from Cons.IH [OF this] obtain p where "xs = p @ c # after_last c xs" "c \<notin> set (after_last c xs)"
      by blast
    moreover have "after_last c (x # xs) = after_last c xs"
      using True by (simp add: after_last_Cons)
    ultimately have "x # xs = (x # p) @ c # after_last c (x # xs) \<and> c \<notin> set (after_last c (x # xs))"
      by simp
    then show ?thesis ..
  next
    case False
    with Cons.prems have "x = c" by simp
    then show ?thesis
      using False by (auto simp: after_last_Cons)
  qed
qed

lemma py_in_single: "py_in [c] s \<longleftrightarrow> c \<in> set s"
  by (induction s) (auto elim: startswith.elims)

lemma py_last_split: "py_last (py_split c s) = Inr (after_last c s)"
  by (simp add: py_last_def py_split_not_Nil last_py_split)

lemma head_py_str: "(case a of PStr s \<Rightarrow> s | _ \<Rightarrow> py_str bi a) = py_str bi a"
  by (cases a) (simp_all add: py_str_def)

lemma simplify_rules_Cons:
  "simplify_rules bi (a0 # rest) =
     (if py_in tool_marker (py_str bi a0) \<and> py_in exec_marker (py_str bi a0) then
        (case rest of
           [] \<Rightarrow> Inr (py_str bi a0)
         | a1 # _ \<Rightarrow> Inr (py_str bi a0 @ spec_extract bi a1))
      else if py_in answer_marker (py_str bi a0) \<and> rest \<noteq> [] then
        (if py_in call_marker (py_str bi (hd rest)) \<and> py_in param_marker (py_str bi (hd rest))
            \<and> py_in [terminator] (py_str bi (hd rest))
         then Inr (py_str bi a0 @ py_strip (after_last terminator (py_str bi (hd rest))))
         else Inr (py_str bi a0 @ py_str bi (hd rest)))
      else
        (case walk bi (a0 # rest) 0 [] of
           Inl e \<Rightarrow> Inl e
         | Inr parts \<Rightarrow> Inr (py_join (ascii '' '') parts)))"
  by (cases rest)
    (simp_all add: simplify_rules_def py_getitem_def head_py_str Let_def extract_spec py_last_split)


lemma walk_one: "walk bi [a] 0 [] = Inr (if is_str_int_float a then [py_str bi a] else [])"
  by (simp add: walk_single walk_end)

lemma simplify_one_str: "simplify_for_frontend bi level [PStr s] = s"
  by (simp add: simplify_for_frontend_def simplify_rules_Cons walk_one is_str_int_float_def py_str_def)

lemma simplify_Cons:
  "simplify_for_frontend bi level (a0 # rest) = (case simplify_rules bi (a0 # rest) of Inr s \<Rightarrow> s | Inl e \<Rightarrow> py_join (ascii '' '') (map (py_str bi) (a0 # rest)))"
  by (simp add: simplify_for_frontend_def)

text \<open>
  Claim C4, as amended. For every call whose first argument, as a string, contains the
  answer marker and does not contain both tool-result markers, and which has a second
  argument: when the text of the second argument contains the call marker, the
  parameters marker and the terminator, the simplified message is the label followed by
  the part of the text after the last terminator, stripped of surrounding whitespace;
  otherwise it is the label followed by the text as it is. The text that ends with the
  terminator gives the label alone, and the text "42" stays "42".
\<close>

theorem answer_rule:
  "(py_in answer_marker (py_str bi a0)
      \<and> \<not> (py_in tool_marker (py_str bi a0) \<and> py_in exec_marker (py_str bi a0))
    \<longrightarrow> simplify_for_frontend bi level (a0 # a1 # rest) =
          py_str bi a0 @
            (if py_in call_marker (py_str bi a1) \<and> py_in param_marker (py_str bi a1)
                \<and> py_in [terminator] (py_str bi a1)
             then py_strip (after_last terminator (py_str bi a1))
             else py_str bi a1))
   \<and> simplify_for_frontend bi level
         [PStr answer_marker,
          PStr (call_marker @ ascii ''search'' @ param_marker @ ascii ''{q}'' @ [terminator]
                @ [0x6700, 0x7EC8, 0x7B54, 0x6848, 0x662F] @ ascii ''42'' @ [terminator])]
       = answer_marker
   \<and> simplify_for_frontend bi level [PStr answer_marker, PStr (ascii ''42'')]
       = answer_marker @ ascii ''42''"
proof -
  have general: "simplify_for_frontend bi level (a0 # a1 # rest) =
          py_str bi a0 @
            (if py_in call_marker (py_str bi a1) \<and> py_in param_marker (py_str bi a1)
                \<and> py_in [terminator] (py_str bi a1)
             then py_strip (after_last terminator (py_str bi a1))
             else py_str bi a1)"
    if "py_in answer_marker (py_str bi a0)"
      and "\<not> (py_in tool_marker (py_str bi a0) \<and> py_in exec_marker (py_str bi a0))"
    for a0 a1 rest
    using that by (auto simp: simplify_Cons simplify_rules_Cons)
  have label: "py_in answer_marker (py_str bi (PStr answer_marker))"
    "\<not> (py_in tool_marker (py_str bi (PStr answer_marker)) \<and> py_in exec_marker (py_str bi (PStr answer_marker)))"
    by (simp_all add: py_str_def marker_defs)
  have ex1: "simplify_for_frontend bi level
         [PStr answer_marker,
          PStr (call_marker @ ascii ''search'' @ param_marker @ ascii ''{q}'' @ [terminator]
                @ [0x6700, 0x7EC8, 0x7B54, 0x6848, 0x662F] @ ascii ''42'' @ [terminator])]
       = answer_marker"
    unfolding general [OF label]
    by (simp add: py_str_def marker_defs ascii_def after_last_def py_strip_def)
  have ex2: "simplify_for_frontend bi level [PStr answer_marker, PStr (ascii ''42'')]
       = answer_marker @ ascii ''42''"
    unfolding general [OF label]
    by (simp add: py_str_def marker_defs ascii_def)
  show ?thesis
    using general ex1 ex2 by blast
qed

text \<open>
  The rule at a label that is the answer marker, a text with the three markers that
  ends in " 42 ", and a third argument.
\<close>

theorem answer_rule_witness:
  "py_in answer_marker (py_str \<lparr>json_loads = (\<lambda>s. None), repr_escaped = (\<lambda>s. s)\<rparr> (PStr answer_marker))
   \<and> \<not> (py_in tool_marker (py_str \<lparr>json_loads = (\<lambda>s. None), repr_escaped = (\<lambda>s. s)\<rparr> (PStr answer_marker))
        \<and> py_in exec_marker (py_str \<lparr>json_loads = (\<lambda>s. None), repr_escaped = (\<lambda>s. s)\<rparr> (PStr answer_marker)))
   \<and> simplify_for_frontend \<lparr>json_loads = (\<lambda>s. None), repr_escaped = (\<lambda>s. s)\<rparr> (ascii ''INFO'')
        [PStr answer_marker, PStr (call_marker @ param_marker @ [terminator, 32, 52, 50, 32]), PInt 7]
       = answer_marker @ ascii ''42''"
proof -
  have label: "py_in answer_marker (py_str \<lparr>json_loads = (\<lambda>s. None), repr_escaped = (\<lambda>s. s)\<rparr> (PStr answer_marker))
   \<and> \<not> (py_in tool_marker (py_str \<lparr>json_loads = (\<lambda>s. None), repr_escaped = (\<lambda>s. s)\<rparr> (PStr answer_marker))
        \<and> py_in exec_marker (py_str \<lparr>json_loads = (\<lambda>s. None), repr_escaped = (\<lambda>s. s)\<rparr> (PStr answer_marker)))"
    by (simp add: py_str_def marker_defs)
  moreover have "simplify_for_frontend \<lparr>json_loads = (\<lambda>s. None), repr_escaped = (\<lambda>s. s)\<rparr> (ascii ''INFO'')
        [PStr answer_marker, PStr (call_marker @ param_marker @ [terminator, 32, 52, 50, 32]), PInt 7]
       = answer_marker @ ascii ''42''"
    using label answer_rule [of "\<lparr>json_loads = (\<lambda>s. None), repr_escaped = (\<lambda>s. s)\<rparr>" "PStr answer_marker"
        "ascii ''INFO''" "PStr (call_marker @ param_marker @ [terminator, 32, 52, 50, 32])" "[PInt 7]"]
    by (simp add: py_str_def marker_defs ascii_def after_last_def py_strip_def py_isspace_def)
  ultimately show ?thesis by blast
qed

text \<open>
  Claim C4 as written fails when the label contains the tool-result markers too: the
  tool-result rule comes first, and the payload \<open>{1: 2}\<close> is reduced to \<open>2\<close> instead
  of being appended as it is.
\<close>

theorem answer_rule_counterexample:
  "py_in answer_marker (tool_marker @ answer_marker @ exec_marker)
   \<and> \<not> (py_in call_marker (py_str \<lparr>json_loads = (\<lambda>s. None), repr_escaped = (\<lambda>s. s)\<rparr> (PDict [(PInt 1, PInt 2)]))
        \<and> py_in param_marker (py_str \<lparr>json_loads = (\<lambda>s. None), repr_escaped = (\<lambda>s. s)\<rparr> (PDict [(PInt 1, PInt 2)]))
        \<and> py_in [terminator] (py_str \<lparr>json_loads = (\<lambda>s. None), repr_escaped = (\<lambda>s. s)\<rparr> (PDict [(PInt 1, PInt 2)])))
   \<and> simplify_for_frontend \<lparr>json_loads = (\<lambda>s. None), repr_escaped = (\<lambda>s. s)\<rparr> (ascii ''INFO'')
        [PStr (tool_marker @ answer_marker @ exec_marker), PDict [(PInt 1, PInt 2)]]
       = tool_marker @ answer_marker @ exec_marker @ ascii ''2''
   \<and> simplify_for_frontend \<lparr>json_loads = (\<lambda>s. None), repr_escaped = (\<lambda>s. s)\<rparr> (ascii ''INFO'')
        [PStr (tool_marker @ answer_marker @ exec_marker), PDict [(PInt 1, PInt 2)]]
       \<noteq> (tool_marker @ answer_marker @ exec_marker)
           @ py_str \<lparr>json_loads = (\<lambda>s. None), repr_escaped = (\<lambda>s. s)\<rparr> (PDict [(PInt 1, PInt 2)])"
  by (simp add: simplify_for_frontend_def simplify_rules_def py_getitem_def marker_defs extract_eval)

lemma erase_mapping_tests [simp]:
  "is_str (erase_mapping a) = is_str a"
  "is_list (erase_mapping a) = is_list a"
  "is_str_int_float (erase_mapping a) = is_str_int_float a"
  by (cases a; simp add: is_str_int_float_def)+

lemma erase_mapping_scalar: "is_str_int_float a \<Longrightarrow> erase_mapping a = a"
  by (cases a) (simp_all add: is_str_int_float_def)

lemma erase_mapping_list: "is_list a \<Longrightarrow> erase_mapping a = a"
  by (cases a) simp_all

lemma is_str_scalar: "is_str a \<Longrightarrow> is_str_int_float a"
  by (simp add: is_str_int_float_def)

lemma walk_erase: "walk bi (map erase_mapping args) i parts = walk bi args i parts"
proof (induction "length args - i" arbitrary: i parts rule: less_induct)
  case less
  show ?case
  proof (cases "i < length args")
    case False
    then show ?thesis
      by (simp add: walk_end)
  next
    case True
    show ?thesis
    proof (cases "is_str (args ! i) \<and> i + 1 < length args \<and> is_list (args ! (i + 1))")
      case paired: True
      have "length args - (i + 2) < length args - i"
        using True by simp
      from less [OF this] show ?thesis
        using True paired
        by (simp add: walk_pair erase_mapping_scalar erase_mapping_list is_str_scalar)
    next
      case single: False
      have "length args - (i + 1) < length args - i"
        using True by simp
      from less [OF this] have IH: "walk bi (map erase_mapping args) (i + 1) ps = walk bi args (i + 1) ps" for ps .
      have single': "\<not> (is_str (map erase_mapping args ! i) \<and> i + 1 < length (map erase_mapping args)
          \<and> is_list (map erase_mapping args ! (i + 1)))"
        using single True by auto
      have "walk bi (map erase_mapping args) i parts =
          walk bi (map erase_mapping args) (i + 1)
            (if is_str_int_float (args ! i) then parts @ [py_str bi (args ! i)] else parts)"
        using walk_single [of i "map erase_mapping args", OF _ single'] True
        by (auto simp: erase_mapping_scalar)
      then show ?thesis
        using walk_single [OF True single] IH by simp
    qed
  qed
qed

lemma py_str_empty_dict: "py_str bi (PDict []) = ascii ''{}''"
  by (simp add: py_str_def ascii_def)

lemma markers_empty_dict:
  "\<not> py_in tool_marker (ascii ''{}'')" "\<not> py_in answer_marker (ascii ''{}'')"
  by (simp_all add: marker_defs ascii_def)

lemma py_str_erase: "py_str bi (erase_mapping a) = (if (\<exists>d. a = PDict d) then ascii ''{}'' else py_str bi a)"
  by (cases a) (simp_all add: py_str_empty_dict)

text \<open>
  Claim C5, as amended. In the generic walk a mapping among the arguments is dropped:
  the loop passes a mapping at position \<open>i\<close> without adding a fragment, and a string
  followed by a mapping is emitted alone. When the first argument, as a string, matches
  neither label pattern, the simplifier's output does not depend on what the mappings
  among the arguments hold: it is the same with every such mapping emptied. When it
  matches a label pattern and there is a payload, the arguments after the payload are
  dropped.
\<close>

theorem walk_drops_mappings:
  "(i < length args \<and> args ! i = PDict d
      \<longrightarrow> walk bi args i parts = walk bi args (i + 1) parts)
   \<and> (i + 1 < length args \<and> args ! i = PStr s \<and> args ! (i + 1) = PDict d
      \<longrightarrow> walk bi args i parts = walk bi args (i + 2) (parts @ [s]))
   \<and> (\<not> (py_in tool_marker (py_str bi a0) \<and> py_in exec_marker (py_str bi a0))
      \<and> \<not> (py_in answer_marker (py_str bi a0) \<and> rest \<noteq> [])
      \<longrightarrow> simplify_for_frontend bi level (map erase_mapping (a0 # rest))
          = simplify_for_frontend bi level (a0 # rest))
   \<and> ((py_in tool_marker (py_str bi b0) \<and> py_in exec_marker (py_str bi b0))
        \<or> py_in answer_marker (py_str bi b0)
      \<longrightarrow> simplify_for_frontend bi level (b0 # b1 # others)
          = simplify_for_frontend bi level [b0, b1])"
proof -
  have dropped: "walk bi args i parts = walk bi args (i + 1) parts"
    if "i < length args" "args ! i = PDict d"
    using that by (simp add: walk_single is_str_int_float_def)
  have unpaired: "walk bi args i parts = walk bi args (i + 2) (parts @ [s])"
    if "i + 1 < length args" "args ! i = PStr s" "args ! (i + 1) = PDict d"
  proof -
    have "walk bi args i parts = walk bi args (i + 1) (parts @ [s])"
      using that by (simp add: walk_single is_str_int_float_def py_str_def)
    also have "\<dots> = walk bi args (i + 1 + 1) (parts @ [s])"
      using that by (simp add: walk_single is_str_int_float_def)
    finally show ?thesis by simp
  qed
  have generic: "simplify_for_frontend bi level (map erase_mapping (a0 # rest))
          = simplify_for_frontend bi level (a0 # rest)"
    if "\<not> (py_in tool_marker (py_str bi a0) \<and> py_in exec_marker (py_str bi a0))"
      and "\<not> (py_in answer_marker (py_str bi a0) \<and> rest \<noteq> [])"
  proof -
    have "simplify_rules bi (erase_mapping a0 # map erase_mapping rest) =
        (case walk bi (map erase_mapping (a0 # rest)) 0 [] of
           Inl e \<Rightarrow> Inl e
         | Inr parts \<Rightarrow> Inr (py_join (ascii '' '') parts))"
      using that by (auto simp: simplify_rules_Cons py_str_erase markers_empty_dict)
    moreover have "simplify_rules bi (a0 # rest) =
        (case walk bi (a0 # rest) 0 [] of
           Inl e \<Rightarrow> Inl e
         | Inr parts \<Rightarrow> Inr (py_join (ascii '' '') parts))"
      using that by (auto simp: simplify_rules_Cons)
    moreover obtain ps where "walk bi (a0 # rest) 0 [] = Inr ps"
      using walk_returns by blast
    ultimately show ?thesis
      using walk_erase [of bi "a0 # rest" 0 "[]"] by (simp add: simplify_Cons)
  qed
  have pattern: "simplify_for_frontend bi level (b0 # b1 # others)
          = simplify_for_frontend bi level [b0, b1]"
    if "(py_in tool_marker (py_str bi b0) \<and> py_in exec_marker (py_str bi b0))
        \<or> py_in answer_marker (py_str bi b0)"
    using that by (auto simp: simplify_Cons simplify_rules_Cons)
  show ?thesis
    using dropped unpaired generic pattern by blast
qed

text \<open>
  The first three parts at the arguments \<open>"x"\<close>, a mapping and \<open>7\<close>; the last
  part at a tool-result label, the payload \<open>5\<close> and a mapping.
\<close>

theorem walk_drops_mappings_witness:
  "simplify_for_frontend \<lparr>json_loads = (\<lambda>s. None), repr_escaped = (\<lambda>s. s)\<rparr> (ascii ''INFO'')
       [PStr (ascii ''x''), PDict [(PStr tool_marker, PStr exec_marker)], PInt 7]
     = simplify_for_frontend \<lparr>json_loads = (\<lambda>s. None), repr_escaped = (\<lambda>s. s)\<rparr> (ascii ''INFO'')
       [PStr (ascii ''x''), PDict [], PInt 7]
   \<and> walk \<lparr>json_loads = (\<lambda>s. None), repr_escaped = (\<lambda>s. s)\<rparr>
        [PStr (ascii ''x''), PDict [(PStr tool_marker, PStr exec_marker)], PInt 7] 1 [ascii ''x'']
     = walk \<lparr>json_loads = (\<lambda>s. None), repr_escaped = (\<lambda>s. s)\<rparr>
        [PStr (ascii ''x''), PDict [(PStr tool_marker, PStr exec_marker)], PInt 7] 2 [ascii ''x'']
   \<and> walk \<lparr>json_loads = (\<lambda>s. None), repr_escaped = (\<lambda>s. s)\<rparr>
        [PStr (ascii ''x''), PDict [(PStr tool_marker, PStr exec_marker)], PInt 7] 0 []
     = walk \<lparr>json_loads = (\<lambda>s. None), repr_escaped = (\<lambda>s. s)\<rparr>
        [PStr (ascii ''x''), PDict [(PStr tool_marker, PStr exec_marker)], PInt 7] 2 [ascii ''x'']
   \<and> simplify_for_frontend \<lparr>json_loads = (\<lambda>s. None), repr_escaped = (\<lambda>s. s)\<rparr> (ascii ''INFO'')
       [PStr (tool_marker @ exec_marker), PInt 5, PDict [(PInt 1, PInt 2)]]
     = tool_marker @ exec_marker @ ascii ''5''"
proof -
  let ?bi = "\<lparr>json_loads = (\<lambda>s. None), repr_escaped = (\<lambda>s. s)\<rparr>"
  let ?d = "[(PStr tool_marker, PStr exec_marker)]"
  let ?rest = "[PDict ?d, PInt 7]"
  let ?args = "PStr (ascii ''x'') # ?rest"
  note inst = walk_drops_mappings [of _ ?args ?d ?bi _ "ascii ''x''" "PStr (ascii ''x'')" ?rest "ascii ''INFO''"]
  have pre: "\<not> (py_in tool_marker (py_str ?bi (PStr (ascii ''x''))) \<and> py_in exec_marker (py_str ?bi (PStr (ascii ''x''))))
      \<and> \<not> (py_in answer_marker (py_str ?bi (PStr (ascii ''x''))) \<and> ?rest \<noteq> [])"
    by (simp add: py_str_def marker_defs ascii_def)
  have "simplify_for_frontend ?bi (ascii ''INFO'') (map erase_mapping ?args)
     = simplify_for_frontend ?bi (ascii ''INFO'') ?args"
    using inst [of 0 "[]"] pre by blast
  then have eq: "simplify_for_frontend ?bi (ascii ''INFO'') ?args
     = simplify_for_frontend ?bi (ascii ''INFO'') [PStr (ascii ''x''), PDict [], PInt 7]"
    by simp
  have "1 < length ?args \<and> ?args ! 1 = PDict ?d"
    by simp
  then have one: "walk ?bi ?args 1 [ascii ''x''] = walk ?bi ?args (1 + 1) [ascii ''x'']"
    using inst [of 1 "[ascii ''x'']"] by blast
  have "0 + 1 < length ?args \<and> ?args ! 0 = PStr (ascii ''x'') \<and> ?args ! (0 + 1) = PDict ?d"
    by simp
  then have two: "walk ?bi ?args 0 [] = walk ?bi ?args (0 + 2) ([] @ [ascii ''x''])"
    using inst [of 0 "[]"] by blast
  have n: "(1::nat) + 1 = 2" "(0::nat) + 2 = 2" by simp_all
  have label: "py_in tool_marker (py_str ?bi (PStr (tool_marker @ exec_marker)))
      \<and> py_in exec_marker (py_str ?bi (PStr (tool_marker @ exec_marker)))"
    by (simp add: py_str_def marker_defs)
  then have "simplify_for_frontend ?bi (ascii ''INFO'')
        (PStr (tool_marker @ exec_marker) # PInt 5 # [PDict [(PInt 1, PInt 2)]])
      = simplify_for_frontend ?bi (ascii ''INFO'') [PStr (tool_marker @ exec_marker), PInt 5]"
    using walk_drops_mappings [where bi = ?bi and ?b0.0 = "PStr (tool_marker @ exec_marker)"
        and ?b1.0 = "PInt 5" and others = "[PDict [(PInt 1, PInt 2)]]" and level = "ascii ''INFO''"]
    by blast
  also have "\<dots> = tool_marker @ exec_marker @ ascii ''5''"
    using label
    by (simp add: simplify_Cons simplify_rules_Cons extract_spec spec_extract_def
        spec_extract_value_def py_str_def int_str_def digits.simps ascii_def)
  finally have three: "simplify_for_frontend ?bi (ascii ''INFO'')
        [PStr (tool_marker @ exec_marker), PInt 5, PDict [(PInt 1, PInt 2)]]
      = tool_marker @ exec_marker @ ascii ''5''" .
  show ?thesis
    using eq one two three unfolding n by simp
qed

text \<open>
  Claim C5 as written fails for a mapping that is the first argument and whose string
  form holds both tool-result markers: the string form of the mapping is taken as the
  label of the tool-result rule, and the output is the mapping's serialization.
\<close>

theorem walk_drops_mappings_counterexample:
  "simplify_for_frontend \<lparr>json_loads = (\<lambda>s. None), repr_escaped = (\<lambda>s. s)\<rparr> (ascii ''INFO'')
       [PDict [(PStr tool_marker, PStr exec_marker)]]
     = ascii ''{'' @ [39] @ tool_marker @ [39] @ ascii '': '' @ [39] @ exec_marker @ [39] @ ascii ''}''
   \<and> py_repr \<lparr>json_loads = (\<lambda>s. None), repr_escaped = (\<lambda>s. s)\<rparr> (PDict [(PStr tool_marker, PStr exec_marker)])
     = ascii ''{'' @ [39] @ tool_marker @ [39] @ ascii '': '' @ [39] @ exec_marker @ [39] @ ascii ''}''"
  by (simp add: simplify_for_frontend_def simplify_rules_def py_getitem_def marker_defs py_str_def
      str_repr_def repr_plain_def ascii_def)



text \<open>
  Claim C8. A string that the simplifier produced, simplified again as the only
  argument of a call, comes back as it is.
\<close>

theorem simplify_idempotent:
  "simplify_for_frontend bi level' [PStr (simplify_for_frontend bi level args)]
     = simplify_for_frontend bi level args"
  by (rule simplify_one_str)

text \<open>
  Claim C10. When the first argument is a string with both tool-result markers and the
  call has no second argument, the extracted value is the empty string and the
  simplifier returns the first argument as it is.
\<close>

theorem tool_result_without_payload:
  "py_in tool_marker s \<and> py_in exec_marker s
   \<longrightarrow> simplify_rules bi [PStr s] = Inr (s @ []) \<and> simplify_for_frontend bi level [PStr s] = s"
  by (simp add: simplify_Cons simplify_rules_Cons py_str_def)

text \<open>
  The rule at the label made of the two markers around the function name \<open>f\<close>.
\<close>

theorem tool_result_without_payload_witness:
  "py_in tool_marker (tool_marker @ ascii ''f'' @ exec_marker)
   \<and> py_in exec_marker (tool_marker @ ascii ''f'' @ exec_marker)
   \<and> simplify_rules \<lparr>json_loads = (\<lambda>s. None), repr_escaped = (\<lambda>s. s)\<rparr>
        [PStr (tool_marker @ ascii ''f'' @ exec_marker)]
       = Inr (tool_marker @ ascii ''f'' @ exec_marker)
   \<and> simplify_for_frontend \<lparr>json_loads = (\<lambda>s. None), repr_escaped = (\<lambda>s. s)\<rparr> (ascii ''INFO'')
        [PStr (tool_marker @ ascii ''f'' @ exec_marker)]
       = tool_marker @ ascii ''f'' @ exec_marker"
proof -
  have pre: "py_in tool_marker (tool_marker @ ascii ''f'' @ exec_marker)
      \<and> py_in exec_marker (tool_marker @ ascii ''f'' @ exec_marker)"
    by (simp add: marker_defs ascii_def)
  then show ?thesis
    using tool_result_without_payload [of "tool_marker @ ascii ''f'' @ exec_marker"
        "\<lparr>json_loads = (\<lambda>s. None), repr_escaped = (\<lambda>s. s)\<rparr>" "ascii ''INFO''"]
    by simp
qed

section \<open>The dispatcher\<close>

lemma should_log_severity:
  "should_log (severity_name a) (severity_name b) = Inr (spec_rank a \<ge> spec_rank b)"
  by (simp add: should_log_def index_severity_name)

lemma COLORS_reset: "map_of COLORS (ascii ''reset'') = Some (27 # ascii ''[0m'')"
  by (simp add: COLORS_def)

lemma console_write_cases:
  "console_write io color full ending =
     (case map_of COLORS color of
        None \<Rightarrow> ([], Some KeyError)
      | Some c \<Rightarrow>
          if print_raises io then ([], Some OSError)
          else ([Print (c @ full @ 27 # ascii ''[0m'' @ ending)], None))"
  by (simp add: console_write_def COLORS_reset split: option.splits)

lemma color_print_rejected:
  assumes "emit_rejected io g level"
  shows "color_print bi io g now level color args sep ending =
     (pushed_events bi g level color args, Some RuntimeError)"
  using assms by (simp add: color_print_def pushed_events_def emit_rejected_def Let_def)

lemma color_print_accepted:
  assumes "\<not> emit_rejected io g level"
  shows "color_print bi io g now level color args sep ending =
     (pushed_events bi g level color args
        @ fst (sink_part bi io g now level color args sep ending),
      snd (sink_part bi io g now level color args sep ending))"
proof -
  have "color_print bi io g now level color args sep ending =
      (case color_print bi io (g\<lparr>socketio := False\<rparr>) now level color args sep ending of
         (sinks, r) \<Rightarrow> (pushed_events bi g level color args @ sinks, r))"
  proof -
    have accepted: "((level = ascii ''INFO'' \<or> level = ascii ''SPECIAL'') \<and> socketio g \<and> emit_raises io) = False"
      using assms by (simp add: emit_rejected_def)
    show ?thesis
      unfolding color_print_def pushed_events_def Let_def accepted
      by (simp split: sum.splits option.splits prod.splits)
  qed
  then show ?thesis
    by (simp add: sink_part_def split: prod.splits)
qed

lemma sink_part_no_emit:
  "filter is_emit (fst (sink_part bi io g now level color args sep ending)) = []"
  by (simp add: color_print_def sink_part_def Let_def console_write_cases file_write_def
      split: sum.splits option.splits prod.splits)

lemma filter_is_emit_pushed:
  "filter is_emit (pushed_events bi g level color args) = pushed_events bi g level color args"
  by (simp add: pushed_events_def)

lemma py_repr_json_loads: "py_repr (bi\<lparr>json_loads := f\<rparr>) v = py_repr bi v"
proof (induction v)
  case (PList xs)
  then have "map (py_repr (bi\<lparr>json_loads := f\<rparr>)) xs = map (py_repr bi) xs"
    by simp
  then show ?case by (simp only: py_repr.simps)
next
  case (PDict kvs)
  have "map (map_prod (py_repr (bi\<lparr>json_loads := f\<rparr>)) (py_repr (bi\<lparr>json_loads := f\<rparr>))) kvs
      = map (map_prod (py_repr bi) (py_repr bi)) kvs"
  proof (rule map_cong [OF refl])
    fix kv
    assume "kv \<in> set kvs"
    show "map_prod (py_repr (bi\<lparr>json_loads := f\<rparr>)) (py_repr (bi\<lparr>json_loads := f\<rparr>)) kv
        = map_prod (py_repr bi) (py_repr bi) kv"
    proof (cases kv)
      case (Pair k v)
      have "py_repr (bi\<lparr>json_loads := f\<rparr>) k = py_repr bi k"
        using PDict(1) [OF \<open>kv \<in> set kvs\<close>, of k] by (simp add: Pair)
      moreover have "py_repr (bi\<lparr>json_loads := f\<rparr>) v = py_repr bi v"
        using PDict(2) [OF \<open>kv \<in> set kvs\<close>, of v] by (simp add: Pair)
      ultimately show ?thesis
        by (simp add: Pair)
    qed
  qed
  then show ?case by (simp only: py_repr.simps)
qed (simp_all add: str_repr_def)

lemma py_str_json_loads: "py_str (bi\<lparr>json_loads := f\<rparr>) = py_str bi"
  by (rule ext) (simp only: py_str_def py_repr_json_loads)

lemma sink_part_socketio:
  "sink_part bi io (g\<lparr>socketio := b\<rparr>) now level color args sep ending
     = sink_part bi io g now level color args sep ending"
  by (simp add: sink_part_def)

lemma sink_part_json_loads:
  "sink_part (bi\<lparr>json_loads := f\<rparr>) io g now level color args sep ending
     = sink_part bi io g now level color args sep ending"
  by (simp add: sink_part_def color_print_def py_str_json_loads)

lemma filter_not_emit_pushed:
  "filter (\<lambda>e. \<not> is_emit e) (pushed_events bi g level color args) = []"
  by (simp add: pushed_events_def)

lemma filter_not_emit_sink_part:
  "filter (\<lambda>e. \<not> is_emit e) (fst (sink_part bi io g now level color args sep ending))
     = fst (sink_part bi io g now level color args sep ending)"
  using sink_part_no_emit [of bi io g now level color args sep ending]
  by (simp add: filter_empty_conv filter_id_conv)

lemma sink_part_valid:
  assumes "console_level g = severity_name cl" and "file_level g = severity_name fl"
  shows "sink_part bi io g now (severity_name sv) color args sep ending =
    (case (if spec_rank cl \<le> spec_rank sv
           then console_write io color
                  (full_message (take (length now - 3) now) (severity_name sv)
                     (py_join sep (map (py_str bi) args))) ending
           else ([], None)) of
       (printed, Some e) \<Rightarrow> (printed, Some e)
     | (printed, None) \<Rightarrow>
         (case log_file_path g of
            None \<Rightarrow> (printed, None)
          | Some path \<Rightarrow>
              if path = [] \<or> \<not> spec_rank fl \<le> spec_rank sv then (printed, None)
              else (case file_write io path
                           (full_message (take (length now - 3) now) (severity_name sv)
                              (py_join sep (map (py_str bi) args))) of
                      (written, r) \<Rightarrow> (printed @ written, r))))"
  using assms
  by (simp add: sink_part_def color_print_def should_log_severity full_message_def Let_def
      split: option.splits prod.splits)

lemma sink_part_ok:
  "list_all
     (sink_effect_ok
        (full_message (take (length now - 3) now) level (py_join sep (map (py_str bi) args)))
        color ending (log_file_path g))
     (fst (sink_part bi io g now level color args sep ending))"
  by (simp add: sink_part_def color_print_def full_message_def Let_def console_write_cases
      file_write_def split: sum.splits option.splits prod.splits)

lemma severity_name_INFO: "severity_name sv = ascii ''INFO'' \<longleftrightarrow> sv = INFO"
  by (cases sv) simp_all

lemma severity_name_SPECIAL: "severity_name sv = ascii ''SPECIAL'' \<longleftrightarrow> sv = SPECIAL"
  by (cases sv) simp_all

lemma filter_emit_color_print:
  "filter is_emit (fst (color_print bi io g now level color args sep ending))
     = pushed_events bi g level color args"
proof (cases "emit_rejected io g level")
  case True
  then show ?thesis
    by (simp add: color_print_rejected filter_is_emit_pushed)
next
  case False
  then show ?thesis
    by (simp add: color_print_accepted filter_is_emit_pushed sink_part_no_emit)
qed

lemma filter_sinks_color_print:
  "filter (\<lambda>e. \<not> is_emit e) (fst (color_print bi io g now level color args sep ending))
     = (if emit_rejected io g level
        then []
        else fst (sink_part bi io g now level color args sep ending))"
proof (cases "emit_rejected io g level")
  case True
  then show ?thesis
    by (simp add: color_print_rejected filter_not_emit_pushed)
next
  case False
  then show ?thesis
    by (simp add: color_print_accepted filter_not_emit_pushed filter_not_emit_sink_part)
qed

lemma snd_color_print:
  "snd (color_print bi io g now level color args sep ending)
     = (if emit_rejected io g level
        then Some RuntimeError
        else snd (sink_part bi io g now level color args sep ending))"
proof (cases "emit_rejected io g level")
  case True
  then show ?thesis
    by (simp add: color_print_rejected)
next
  case False
  then show ?thesis
    by (simp add: color_print_accepted)
qed

lemma emits_first:
  "\<exists>sinks. fst (color_print bi io g now level color args sep ending)
          = pushed_events bi g level color args @ sinks
        \<and> filter is_emit sinks = []"
proof (cases "emit_rejected io g level")
  case True
  then have "fst (color_print bi io g now level color args sep ending)
      = pushed_events bi g level color args @ []"
    by (simp add: color_print_rejected)
  then show ?thesis
    by (metis filter.simps(1))
next
  case False
  then have "fst (color_print bi io g now level color args sep ending)
      = pushed_events bi g level color args
        @ fst (sink_part bi io g now level color args sep ending)"
    by (simp add: color_print_accepted)
  then show ?thesis
    using sink_part_no_emit by blast
qed

lemma duration_label:
  "py_in tool_marker (tool_marker @ ascii ''duration_calculator'' @ exec_marker)"
  "py_in exec_marker (tool_marker @ ascii ''duration_calculator'' @ exec_marker)"
  by (simp_all add: marker_defs ascii_def)

lemma duration_message:
  assumes "json_loads bi payload
      = Some (PDict [(PStr (ascii ''result''),
                      PDict [(PStr (ascii ''by_seconds''), PFloat (ascii ''1149.0''))])])"
  shows "simplify_for_frontend bi level
      [PStr (tool_marker @ ascii ''duration_calculator'' @ exec_marker), PStr payload]
    = tool_marker @ ascii ''duration_calculator'' @ exec_marker @ ascii ''1149.0''"
proof -
  have "extract_value_from_tool_result bi (PStr payload) = Inr (ascii ''1149.0'')"
    using assms by (simp add: extract_eval)
  then have "spec_extract bi (PStr payload) = ascii ''1149.0''"
    by (simp add: extract_spec)
  then show ?thesis
    using duration_label by (simp add: simplify_Cons simplify_rules_Cons py_str_def)
qed

text \<open>
  Claim C2. A log call hands exactly one event to the push channel, with the level, the
  simplified message and the colour, when a channel is configured and the level is INFO
  or SPECIAL, and no event otherwise. The event comes before every console and file
  effect, whatever those then do, and it does not depend on the thresholds or on the log
  file. With a channel, the INFO entry point on the duration_calculator label and the
  payload \<open>{"result":{"by_seconds":1149.0}}\<close> (34 is the double quote) pushes the one
  event whose message is the label followed by 1149.0, given that \<^verbatim>\<open>json.loads\<close> parses
  the payload; the DEBUG entry point pushes none.
\<close>

theorem push_emission:
  "filter is_emit (fst (color_print bi io g now level color args sep ending)) =
     (if (level = ascii ''INFO'' \<or> level = ascii ''SPECIAL'') \<and> socketio g
      then [Emit (ascii ''log_message'') level (simplify_for_frontend bi level args) color]
      else [])
   \<and> (\<exists>sinks. fst (color_print bi io g now level color args sep ending)
          = filter is_emit (fst (color_print bi io g now level color args sep ending)) @ sinks
        \<and> filter is_emit sinks = [])
   \<and> filter is_emit
        (fst (color_print bi io' (g\<lparr>console_level := cl, file_level := fl, log_file_path := p\<rparr>)
                now level color args sep ending))
       = filter is_emit (fst (color_print bi io g now level color args sep ending))
   \<and> (json_loads bi
          (ascii ''{'' @ [34] @ ascii ''result'' @ [34] @ ascii '':{'' @ [34] @ ascii ''by_seconds''
             @ [34] @ ascii '':1149.0}}'')
        = Some (PDict [(PStr (ascii ''result''),
                        PDict [(PStr (ascii ''by_seconds''), PFloat (ascii ''1149.0''))])])
      \<longrightarrow> filter is_emit
            (fst (info bi io (g\<lparr>socketio := True\<rparr>) now
                    [PStr (tool_marker @ ascii ''duration_calculator'' @ exec_marker),
                     PStr (ascii ''{'' @ [34] @ ascii ''result'' @ [34] @ ascii '':{'' @ [34]
                           @ ascii ''by_seconds'' @ [34] @ ascii '':1149.0}}'')]
                    sep ending))
          = [Emit (ascii ''log_message'') (ascii ''INFO'')
               (tool_marker @ ascii ''duration_calculator'' @ exec_marker @ ascii ''1149.0'')
               (ascii ''blue'')]
        \<and> filter is_emit
            (fst (debug bi io (g\<lparr>socketio := True\<rparr>) now
                    [PStr (tool_marker @ ascii ''duration_calculator'' @ exec_marker),
                     PStr (ascii ''{'' @ [34] @ ascii ''result'' @ [34] @ ascii '':{'' @ [34]
                           @ ascii ''by_seconds'' @ [34] @ ascii '':1149.0}}'')]
                    sep ending))
          = [])"
proof -
  have emitted: "filter is_emit (fst (color_print bi io g now level color args sep ending)) =
     (if (level = ascii ''INFO'' \<or> level = ascii ''SPECIAL'') \<and> socketio g
      then [Emit (ascii ''log_message'') level (simplify_for_frontend bi level args) color]
      else [])"
    for io g level color args
    by (simp add: filter_emit_color_print pushed_events_def)
  have first: "\<exists>sinks. fst (color_print bi io g now level color args sep ending)
          = filter is_emit (fst (color_print bi io g now level color args sep ending)) @ sinks
        \<and> filter is_emit sinks = []"
    unfolding filter_emit_color_print by (rule emits_first)
  have thresholds: "filter is_emit
        (fst (color_print bi io' (g\<lparr>console_level := cl, file_level := fl, log_file_path := p\<rparr>)
                now level color args sep ending))
       = filter is_emit (fst (color_print bi io g now level color args sep ending))"
    by (simp add: emitted)
  have example: "filter is_emit
            (fst (info bi io (g\<lparr>socketio := True\<rparr>) now
                    [PStr (tool_marker @ ascii ''duration_calculator'' @ exec_marker), PStr payload]
                    sep ending))
          = [Emit (ascii ''log_message'') (ascii ''INFO'')
               (tool_marker @ ascii ''duration_calculator'' @ exec_marker @ ascii ''1149.0'')
               (ascii ''blue'')]
        \<and> filter is_emit
            (fst (debug bi io (g\<lparr>socketio := True\<rparr>) now
                    [PStr (tool_marker @ ascii ''duration_calculator'' @ exec_marker), PStr payload]
                    sep ending))
          = []"
    if "json_loads bi payload
        = Some (PDict [(PStr (ascii ''result''),
                        PDict [(PStr (ascii ''by_seconds''), PFloat (ascii ''1149.0''))])])"
    for payload
    using duration_message [OF that] by (simp add: info_def debug_def emitted)
  show ?thesis
    using emitted first thresholds example by blast
qed

text \<open>
  The example with a parser that knows the payload.
\<close>

theorem push_emission_witness:
  "json_loads
      \<lparr>json_loads = (\<lambda>s. if s = (ascii ''{'' @ [34] @ ascii ''result'' @ [34] @ ascii '':{'' @ [34] @ ascii ''by_seconds'' @ [34] @ ascii '':1149.0}}'') then Some (PDict [(PStr (ascii ''result''), PDict [(PStr (ascii ''by_seconds''), PFloat (ascii ''1149.0''))])]) else None), repr_escaped = (\<lambda>s. s)\<rparr>
      (ascii ''{'' @ [34] @ ascii ''result'' @ [34] @ ascii '':{'' @ [34] @ ascii ''by_seconds'' @ [34] @ ascii '':1149.0}}'')
     = Some (PDict [(PStr (ascii ''result''), PDict [(PStr (ascii ''by_seconds''), PFloat (ascii ''1149.0''))])])
   \<and> filter is_emit
        (fst (info \<lparr>json_loads = (\<lambda>s. if s = (ascii ''{'' @ [34] @ ascii ''result'' @ [34] @ ascii '':{'' @ [34] @ ascii ''by_seconds'' @ [34] @ ascii '':1149.0}}'') then Some (PDict [(PStr (ascii ''result''), PDict [(PStr (ascii ''by_seconds''), PFloat (ascii ''1149.0''))])]) else None), repr_escaped = (\<lambda>s. s)\<rparr> \<lparr>emit_raises = False, print_raises = False, open_raises = False, write_raises = False\<rparr>
                \<lparr>socketio = True, console_level = ascii ''DEBUG'', file_level = ascii ''TRACE'', log_file_path = None\<rparr> (ascii ''2025-01-01 12:00:00.123456'')
                [PStr (tool_marker @ ascii ''duration_calculator'' @ exec_marker), PStr (ascii ''{'' @ [34] @ ascii ''result'' @ [34] @ ascii '':{'' @ [34] @ ascii ''by_seconds'' @ [34] @ ascii '':1149.0}}'')]
                (ascii '' '') [10]))
      = [Emit (ascii ''log_message'') (ascii ''INFO'')
           (tool_marker @ ascii ''duration_calculator'' @ exec_marker @ ascii ''1149.0'')
           (ascii ''blue'')]
   \<and> filter is_emit
        (fst (debug \<lparr>json_loads = (\<lambda>s. if s = (ascii ''{'' @ [34] @ ascii ''result'' @ [34] @ ascii '':{'' @ [34] @ ascii ''by_seconds'' @ [34] @ ascii '':1149.0}}'') then Some (PDict [(PStr (ascii ''result''), PDict [(PStr (ascii ''by_seconds''), PFloat (ascii ''1149.0''))])]) else None), repr_escaped = (\<lambda>s. s)\<rparr> \<lparr>emit_raises = False, print_raises = False, open_raises = False, write_raises = False\<rparr>
                \<lparr>socketio = True, console_level = ascii ''DEBUG'', file_level = ascii ''TRACE'', log_file_path = None\<rparr> (ascii ''2025-01-01 12:00:00.123456'')
                [PStr (tool_marker @ ascii ''duration_calculator'' @ exec_marker), PStr (ascii ''{'' @ [34] @ ascii ''result'' @ [34] @ ascii '':{'' @ [34] @ ascii ''by_seconds'' @ [34] @ ascii '':1149.0}}'')]
                (ascii '' '') [10]))
      = []"
proof -
  have parsed: "json_loads
      \<lparr>json_loads = (\<lambda>s. if s = (ascii ''{'' @ [34] @ ascii ''result'' @ [34] @ ascii '':{'' @ [34] @ ascii ''by_seconds'' @ [34] @ ascii '':1149.0}}'') then Some (PDict [(PStr (ascii ''result''), PDict [(PStr (ascii ''by_seconds''), PFloat (ascii ''1149.0''))])]) else None), repr_escaped = (\<lambda>s. s)\<rparr>
      (ascii ''{'' @ [34] @ ascii ''result'' @ [34] @ ascii '':{'' @ [34] @ ascii ''by_seconds'' @ [34] @ ascii '':1149.0}}'')
     = Some (PDict [(PStr (ascii ''result''), PDict [(PStr (ascii ''by_seconds''), PFloat (ascii ''1149.0''))])])"
    by simp
  show ?thesis
    using parsed push_emission [where bi = "\<lparr>json_loads = (\<lambda>s. if s = (ascii ''{'' @ [34] @ ascii ''result'' @ [34] @ ascii '':{'' @ [34] @ ascii ''by_seconds'' @ [34] @ ascii '':1149.0}}'') then Some (PDict [(PStr (ascii ''result''), PDict [(PStr (ascii ''by_seconds''), PFloat (ascii ''1149.0''))])]) else None), repr_escaped = (\<lambda>s. s)\<rparr>" and io = "\<lparr>emit_raises = False, print_raises = False, open_raises = False, write_raises = False\<rparr>" and g = "\<lparr>socketio = True, console_level = ascii ''DEBUG'', file_level = ascii ''TRACE'', log_file_path = None\<rparr>" and now = "(ascii ''2025-01-01 12:00:00.123456'')" and sep = "(ascii '' '')" and ending = "[10]", THEN conjunct2, THEN conjunct2, THEN conjunct2]
    by simp
qed

lemma hello_message:
  "simplify_for_frontend bi level [PStr (ascii ''hello''), PInt 7] = ascii ''hello 7''"
proof -
  have "\<not> py_in tool_marker (ascii ''hello'')" and "\<not> py_in answer_marker (ascii ''hello'')"
    by (simp_all add: marker_defs ascii_def)
  then show ?thesis
    by (simp add: simplify_Cons simplify_rules_Cons walk_single walk_end is_str_int_float_def
        py_str_def int_str_def digits.simps ascii_def)
qed

lemma hello_full:
  "full_message (take (length (ascii ''2025-01-01 12:00:00.123456'') - 3) (ascii ''2025-01-01 12:00:00.123456'')) (ascii ''INFO'')
      (py_join (ascii '' '') (map (py_str bi) [PStr (ascii ''hello''), PInt 7])) = (ascii ''2025-01-01 12:00:00.123 [INFO] hello 7'')"
  "full_message (take (length (ascii ''2025-01-01 12:00:00.123456'') - 3) (ascii ''2025-01-01 12:00:00.123456'')) (ascii ''ERROR'')
      (py_join (ascii '' '') (map (py_str bi) [PStr (ascii ''hello''), PInt 7])) = (ascii ''2025-01-01 12:00:00.123 [ERROR] hello 7'')"
  by (simp_all add: full_message_def py_str_def int_str_def digits.simps ascii_def)

text \<open>
  Claim C9, as amended. Every text that a log call writes to the console or to the file
  is the full message: the timestamp, the severity between brackets and the arguments
  joined by the separator; it does not depend on \<^verbatim>\<open>json.loads\<close>, which only the
  simplifier uses. When \<^verbatim>\<open>socketio.emit\<close> does not raise, what the sinks receive and how
  the call ends is the same with and without a push channel; when it raises, the call
  ends there and neither sink receives anything. The simplified message goes to the
  push channel alone, for INFO and SPECIAL. With valid thresholds, a log file and
  operations that do not raise, the call's effects are the pushed event, the console
  line when the level reaches the console threshold, and the file line when it reaches
  the file threshold.
\<close>

theorem sinks_receive_full_message:
  "list_all
     (sink_effect_ok
        (full_message (take (length now - 3) now) level (py_join sep (map (py_str bi) args)))
        color ending (log_file_path g))
     (fst (color_print bi io g now level color args sep ending))
   \<and> (\<not> emit_raises io
      \<longrightarrow> filter (\<lambda>e. \<not> is_emit e)
            (fst (color_print bi io (g\<lparr>socketio := b\<rparr>) now level color args sep ending))
          = filter (\<lambda>e. \<not> is_emit e) (fst (color_print bi io g now level color args sep ending))
        \<and> snd (color_print bi io (g\<lparr>socketio := b\<rparr>) now level color args sep ending)
          = snd (color_print bi io g now level color args sep ending))
   \<and> ((level = ascii ''INFO'' \<or> level = ascii ''SPECIAL'') \<and> socketio g \<and> emit_raises io
      \<longrightarrow> color_print bi io g now level color args sep ending
          = ([Emit (ascii ''log_message'') level (simplify_for_frontend bi level args) color],
             Some RuntimeError))
   \<and> filter (\<lambda>e. \<not> is_emit e)
        (fst (color_print (bi\<lparr>json_loads := f\<rparr>) io g now level color args sep ending))
      = filter (\<lambda>e. \<not> is_emit e) (fst (color_print bi io g now level color args sep ending))
   \<and> snd (color_print (bi\<lparr>json_loads := f\<rparr>) io g now level color args sep ending)
      = snd (color_print bi io g now level color args sep ending)
   \<and> filter is_emit (fst (color_print bi io g now level color args sep ending)) =
       (if (level = ascii ''INFO'' \<or> level = ascii ''SPECIAL'') \<and> socketio g
        then [Emit (ascii ''log_message'') level (simplify_for_frontend bi level args) color]
        else [])
   \<and> (console_level g = severity_name cl \<and> file_level g = severity_name fl
        \<and> log_file_path g = Some path \<and> path \<noteq> [] \<and> map_of COLORS color = Some c
        \<and> \<not> emit_raises io \<and> \<not> print_raises io \<and> \<not> open_raises io \<and> \<not> write_raises io
      \<longrightarrow> color_print bi io g now (severity_name sv) color args sep ending =
          ((if (sv = INFO \<or> sv = SPECIAL) \<and> socketio g
            then [Emit (ascii ''log_message'') (severity_name sv)
                    (simplify_for_frontend bi (severity_name sv) args) color]
            else [])
           @ (if spec_rank cl \<le> spec_rank sv
              then [Print (c @ full_message (take (length now - 3) now) (severity_name sv) (py_join sep (map (py_str bi) args))
                           @ 27 # ascii ''[0m'' @ ending)]
              else [])
           @ (if spec_rank fl \<le> spec_rank sv
              then [File_open path,
                    File_write path
                      (full_message (take (length now - 3) now) (severity_name sv) (py_join sep (map (py_str bi) args)) @ [10]),
                    File_close path]
              else []),
           None))"
proof -
  have ok: "list_all
     (sink_effect_ok
        (full_message (take (length now - 3) now) level (py_join sep (map (py_str bi) args)))
        color ending (log_file_path g))
     (fst (color_print bi io g now level color args sep ending))"
  proof (cases "emit_rejected io g level")
    case True
    then show ?thesis
      by (simp add: color_print_rejected pushed_events_def)
  next
    case False
    then show ?thesis
      using sink_part_ok [of now level sep bi args color ending g io]
      by (simp add: color_print_accepted pushed_events_def)
  qed
  have quiet: "\<not> emit_rejected io g' lv" if "\<not> emit_raises io" for g' lv
    using that by (simp add: emit_rejected_def)
  have channel: "filter (\<lambda>e. \<not> is_emit e)
        (fst (color_print bi io (g\<lparr>socketio := b\<rparr>) now level color args sep ending))
      = filter (\<lambda>e. \<not> is_emit e) (fst (color_print bi io g now level color args sep ending))
    \<and> snd (color_print bi io (g\<lparr>socketio := b\<rparr>) now level color args sep ending)
      = snd (color_print bi io g now level color args sep ending)"
    if "\<not> emit_raises io"
    by (simp add: filter_sinks_color_print snd_color_print quiet [OF that] sink_part_socketio)
  have rejected: "color_print bi io g now level color args sep ending
          = ([Emit (ascii ''log_message'') level (simplify_for_frontend bi level args) color],
             Some RuntimeError)"
    if "(level = ascii ''INFO'' \<or> level = ascii ''SPECIAL'') \<and> socketio g \<and> emit_raises io"
  proof -
    have "emit_rejected io g level"
      using that by (simp add: emit_rejected_def)
    then show ?thesis
      using that by (simp add: color_print_rejected pushed_events_def)
  qed
  have same: "emit_rejected io g level = emit_rejected io g level"
    by simp
  have parse: "filter (\<lambda>e. \<not> is_emit e)
        (fst (color_print (bi\<lparr>json_loads := f\<rparr>) io g now level color args sep ending))
      = filter (\<lambda>e. \<not> is_emit e) (fst (color_print bi io g now level color args sep ending))"
    by (simp only: filter_sinks_color_print sink_part_json_loads)
  have parse_outcome: "snd (color_print (bi\<lparr>json_loads := f\<rparr>) io g now level color args sep ending)
      = snd (color_print bi io g now level color args sep ending)"
    by (simp only: snd_color_print sink_part_json_loads)
  have emitted: "filter is_emit (fst (color_print bi io g now level color args sep ending)) =
       (if (level = ascii ''INFO'' \<or> level = ascii ''SPECIAL'') \<and> socketio g
        then [Emit (ascii ''log_message'') level (simplify_for_frontend bi level args) color]
        else [])"
    by (simp add: filter_emit_color_print pushed_events_def)
  have exact: "color_print bi io g now (severity_name sv) color args sep ending =
          ((if (sv = INFO \<or> sv = SPECIAL) \<and> socketio g
            then [Emit (ascii ''log_message'') (severity_name sv)
                    (simplify_for_frontend bi (severity_name sv) args) color]
            else [])
           @ (if spec_rank cl \<le> spec_rank sv
              then [Print (c @ full_message (take (length now - 3) now) (severity_name sv) (py_join sep (map (py_str bi) args))
                           @ 27 # ascii ''[0m'' @ ending)]
              else [])
           @ (if spec_rank fl \<le> spec_rank sv
              then [File_open path,
                    File_write path
                      (full_message (take (length now - 3) now) (severity_name sv) (py_join sep (map (py_str bi) args)) @ [10]),
                    File_close path]
              else []),
           None)"
    if "console_level g = severity_name cl" "file_level g = severity_name fl"
      "log_file_path g = Some path" "path \<noteq> []" "map_of COLORS color = Some c"
      "\<not> emit_raises io" "\<not> print_raises io" "\<not> open_raises io" "\<not> write_raises io"
  proof -
    have accepted: "\<not> emit_rejected io g (severity_name sv)"
      using that(6) by (rule quiet)
    show ?thesis
      unfolding color_print_accepted [OF accepted]
      using that
      by (simp add: sink_part_valid [of g cl fl] pushed_events_def console_write_cases
          file_write_def severity_name_INFO severity_name_SPECIAL)
  qed
  show ?thesis
    using ok channel rejected parse parse_outcome emitted exact by blast
qed

text \<open>
  The INFO entry point on "hello" and 7 with a channel: when nothing raises, the pushed
  event and both sinks, the sinks as they are without a channel; when the channel
  rejects the event, the event and the exception.
\<close>

theorem sinks_receive_full_message_witness:
  "console_level \<lparr>socketio = True, console_level = ascii ''INFO'', file_level = ascii ''TRACE'', log_file_path = Some (ascii ''devlop_output/logs/run.log'')\<rparr> = severity_name INFO
   \<and> file_level \<lparr>socketio = True, console_level = ascii ''INFO'', file_level = ascii ''TRACE'', log_file_path = Some (ascii ''devlop_output/logs/run.log'')\<rparr> = severity_name TRACE
   \<and> map_of COLORS (ascii ''blue'') = Some (27 # ascii ''[94m'')
   \<and> info \<lparr>json_loads = (\<lambda>s. None), repr_escaped = (\<lambda>s. s)\<rparr> \<lparr>emit_raises = False, print_raises = False, open_raises = False, write_raises = False\<rparr> \<lparr>socketio = True, console_level = ascii ''INFO'', file_level = ascii ''TRACE'', log_file_path = Some (ascii ''devlop_output/logs/run.log'')\<rparr> (ascii ''2025-01-01 12:00:00.123456'') [PStr (ascii ''hello''), PInt 7] (ascii '' '') [10] =
       ([Emit (ascii ''log_message'') (ascii ''INFO'') (ascii ''hello 7'') (ascii ''blue''), Print (27 # ascii ''[94m'' @ (ascii ''2025-01-01 12:00:00.123 [INFO] hello 7'') @ 27 # ascii ''[0m'' @ [10]), File_open (ascii ''devlop_output/logs/run.log''), File_write (ascii ''devlop_output/logs/run.log'') ((ascii ''2025-01-01 12:00:00.123 [INFO] hello 7'') @ [10]), File_close (ascii ''devlop_output/logs/run.log'')], None)
   \<and> filter (\<lambda>e. \<not> is_emit e) (fst (info \<lparr>json_loads = (\<lambda>s. None), repr_escaped = (\<lambda>s. s)\<rparr> \<lparr>emit_raises = False, print_raises = False, open_raises = False, write_raises = False\<rparr> \<lparr>socketio = True, console_level = ascii ''INFO'', file_level = ascii ''TRACE'', log_file_path = Some (ascii ''devlop_output/logs/run.log'')\<rparr> (ascii ''2025-01-01 12:00:00.123456'') [PStr (ascii ''hello''), PInt 7] (ascii '' '') [10]))
      = filter (\<lambda>e. \<not> is_emit e) (fst (info \<lparr>json_loads = (\<lambda>s. None), repr_escaped = (\<lambda>s. s)\<rparr> \<lparr>emit_raises = False, print_raises = False, open_raises = False, write_raises = False\<rparr> \<lparr>socketio = False, console_level = ascii ''INFO'', file_level = ascii ''TRACE'', log_file_path = Some (ascii ''devlop_output/logs/run.log'')\<rparr> (ascii ''2025-01-01 12:00:00.123456'') [PStr (ascii ''hello''), PInt 7] (ascii '' '') [10]))
   \<and> snd (info \<lparr>json_loads = (\<lambda>s. None), repr_escaped = (\<lambda>s. s)\<rparr> \<lparr>emit_raises = False, print_raises = False, open_raises = False, write_raises = False\<rparr> \<lparr>socketio = True, console_level = ascii ''INFO'', file_level = ascii ''TRACE'', log_file_path = Some (ascii ''devlop_output/logs/run.log'')\<rparr> (ascii ''2025-01-01 12:00:00.123456'') [PStr (ascii ''hello''), PInt 7] (ascii '' '') [10]) = snd (info \<lparr>json_loads = (\<lambda>s. None), repr_escaped = (\<lambda>s. s)\<rparr> \<lparr>emit_raises = False, print_raises = False, open_raises = False, write_raises = False\<rparr> \<lparr>socketio = False, console_level = ascii ''INFO'', file_level = ascii ''TRACE'', log_file_path = Some (ascii ''devlop_output/logs/run.log'')\<rparr> (ascii ''2025-01-01 12:00:00.123456'') [PStr (ascii ''hello''), PInt 7] (ascii '' '') [10])
   \<and> info \<lparr>json_loads = (\<lambda>s. None), repr_escaped = (\<lambda>s. s)\<rparr> \<lparr>emit_raises = True, print_raises = False, open_raises = False, write_raises = False\<rparr> \<lparr>socketio = True, console_level = ascii ''INFO'', file_level = ascii ''TRACE'', log_file_path = Some (ascii ''devlop_output/logs/run.log'')\<rparr> (ascii ''2025-01-01 12:00:00.123456'') [PStr (ascii ''hello''), PInt 7] (ascii '' '') [10] = ([Emit (ascii ''log_message'') (ascii ''INFO'') (ascii ''hello 7'') (ascii ''blue'')], Some RuntimeError)"
proof -
  have pre: "console_level \<lparr>socketio = True, console_level = ascii ''INFO'', file_level = ascii ''TRACE'', log_file_path = Some (ascii ''devlop_output/logs/run.log'')\<rparr> = severity_name INFO
      \<and> file_level \<lparr>socketio = True, console_level = ascii ''INFO'', file_level = ascii ''TRACE'', log_file_path = Some (ascii ''devlop_output/logs/run.log'')\<rparr> = severity_name TRACE
      \<and> log_file_path \<lparr>socketio = True, console_level = ascii ''INFO'', file_level = ascii ''TRACE'', log_file_path = Some (ascii ''devlop_output/logs/run.log'')\<rparr> = Some (ascii ''devlop_output/logs/run.log'')
      \<and> (ascii ''devlop_output/logs/run.log'') \<noteq> []
      \<and> \<not> emit_raises \<lparr>emit_raises = False, print_raises = False, open_raises = False, write_raises = False\<rparr> \<and> \<not> print_raises \<lparr>emit_raises = False, print_raises = False, open_raises = False, write_raises = False\<rparr> \<and> \<not> open_raises \<lparr>emit_raises = False, print_raises = False, open_raises = False, write_raises = False\<rparr> \<and> \<not> write_raises \<lparr>emit_raises = False, print_raises = False, open_raises = False, write_raises = False\<rparr>"
    by (simp add: ascii_def)
  have blue: "map_of COLORS (ascii ''blue'') = Some (27 # ascii ''[94m'')"
    by (simp add: COLORS_def)
  have name: "ascii ''INFO'' = severity_name INFO"
    by simp
  have full: "full_message (take (length (ascii ''2025-01-01 12:00:00.123456'') - 3) (ascii ''2025-01-01 12:00:00.123456'')) (severity_name INFO)
      (py_join (ascii '' '') (map (py_str \<lparr>json_loads = (\<lambda>s. None), repr_escaped = (\<lambda>s. s)\<rparr>) [PStr (ascii ''hello''), PInt 7])) = (ascii ''2025-01-01 12:00:00.123 [INFO] hello 7'')"
    using hello_full(1) by simp
  have all: "info \<lparr>json_loads = (\<lambda>s. None), repr_escaped = (\<lambda>s. s)\<rparr> \<lparr>emit_raises = False, print_raises = False, open_raises = False, write_raises = False\<rparr> \<lparr>socketio = True, console_level = ascii ''INFO'', file_level = ascii ''TRACE'', log_file_path = Some (ascii ''devlop_output/logs/run.log'')\<rparr> (ascii ''2025-01-01 12:00:00.123456'') [PStr (ascii ''hello''), PInt 7] (ascii '' '') [10] =
       ([Emit (ascii ''log_message'') (ascii ''INFO'') (ascii ''hello 7'') (ascii ''blue''), Print (27 # ascii ''[94m'' @ (ascii ''2025-01-01 12:00:00.123 [INFO] hello 7'') @ 27 # ascii ''[0m'' @ [10]), File_open (ascii ''devlop_output/logs/run.log''), File_write (ascii ''devlop_output/logs/run.log'') ((ascii ''2025-01-01 12:00:00.123 [INFO] hello 7'') @ [10]), File_close (ascii ''devlop_output/logs/run.log'')], None)"
    unfolding info_def name
    using sinks_receive_full_message [where now = "(ascii ''2025-01-01 12:00:00.123456'')" and sep = "(ascii '' '')" and bi = "\<lparr>json_loads = (\<lambda>s. None), repr_escaped = (\<lambda>s. s)\<rparr>" and args = "[PStr (ascii ''hello''), PInt 7]" and color = "ascii ''blue''" and ending = "[10]" and g = "\<lparr>socketio = True, console_level = ascii ''INFO'', file_level = ascii ''TRACE'', log_file_path = Some (ascii ''devlop_output/logs/run.log'')\<rparr>" and io = "\<lparr>emit_raises = False, print_raises = False, open_raises = False, write_raises = False\<rparr>" and cl = INFO and fl = TRACE and path = "(ascii ''devlop_output/logs/run.log'')" and c = "27 # ascii ''[94m''" and sv = INFO, THEN conjunct2, THEN conjunct2, THEN conjunct2, THEN conjunct2, THEN conjunct2, THEN conjunct2] pre blue
    unfolding full
    by (simp add: hello_message)
  have "\<not> emit_raises \<lparr>emit_raises = False, print_raises = False, open_raises = False, write_raises = False\<rparr>"
    by simp
  then have same: "filter (\<lambda>e. \<not> is_emit e) (fst (info \<lparr>json_loads = (\<lambda>s. None), repr_escaped = (\<lambda>s. s)\<rparr> \<lparr>emit_raises = False, print_raises = False, open_raises = False, write_raises = False\<rparr> (\<lparr>socketio = False, console_level = ascii ''INFO'', file_level = ascii ''TRACE'', log_file_path = Some (ascii ''devlop_output/logs/run.log'')\<rparr>\<lparr>socketio := True\<rparr>) (ascii ''2025-01-01 12:00:00.123456'') [PStr (ascii ''hello''), PInt 7] (ascii '' '') [10]))
      = filter (\<lambda>e. \<not> is_emit e) (fst (info \<lparr>json_loads = (\<lambda>s. None), repr_escaped = (\<lambda>s. s)\<rparr> \<lparr>emit_raises = False, print_raises = False, open_raises = False, write_raises = False\<rparr> \<lparr>socketio = False, console_level = ascii ''INFO'', file_level = ascii ''TRACE'', log_file_path = Some (ascii ''devlop_output/logs/run.log'')\<rparr> (ascii ''2025-01-01 12:00:00.123456'') [PStr (ascii ''hello''), PInt 7] (ascii '' '') [10]))
    \<and> snd (info \<lparr>json_loads = (\<lambda>s. None), repr_escaped = (\<lambda>s. s)\<rparr> \<lparr>emit_raises = False, print_raises = False, open_raises = False, write_raises = False\<rparr> (\<lparr>socketio = False, console_level = ascii ''INFO'', file_level = ascii ''TRACE'', log_file_path = Some (ascii ''devlop_output/logs/run.log'')\<rparr>\<lparr>socketio := True\<rparr>) (ascii ''2025-01-01 12:00:00.123456'') [PStr (ascii ''hello''), PInt 7] (ascii '' '') [10]) = snd (info \<lparr>json_loads = (\<lambda>s. None), repr_escaped = (\<lambda>s. s)\<rparr> \<lparr>emit_raises = False, print_raises = False, open_raises = False, write_raises = False\<rparr> \<lparr>socketio = False, console_level = ascii ''INFO'', file_level = ascii ''TRACE'', log_file_path = Some (ascii ''devlop_output/logs/run.log'')\<rparr> (ascii ''2025-01-01 12:00:00.123456'') [PStr (ascii ''hello''), PInt 7] (ascii '' '') [10])"
    unfolding info_def
    using sinks_receive_full_message [where now = "(ascii ''2025-01-01 12:00:00.123456'')" and sep = "(ascii '' '')" and bi = "\<lparr>json_loads = (\<lambda>s. None), repr_escaped = (\<lambda>s. s)\<rparr>" and args = "[PStr (ascii ''hello''), PInt 7]" and color = "ascii ''blue''" and ending = "[10]" and g = "\<lparr>socketio = False, console_level = ascii ''INFO'', file_level = ascii ''TRACE'', log_file_path = Some (ascii ''devlop_output/logs/run.log'')\<rparr>" and io = "\<lparr>emit_raises = False, print_raises = False, open_raises = False, write_raises = False\<rparr>" and b = True and level = "ascii ''INFO''", THEN conjunct2, THEN conjunct1]
    by blast
  have "(ascii ''INFO'' = ascii ''INFO'' \<or> ascii ''INFO'' = ascii ''SPECIAL'') \<and> socketio \<lparr>socketio = True, console_level = ascii ''INFO'', file_level = ascii ''TRACE'', log_file_path = Some (ascii ''devlop_output/logs/run.log'')\<rparr> \<and> emit_raises \<lparr>emit_raises = True, print_raises = False, open_raises = False, write_raises = False\<rparr>"
    by simp
  then have rejected: "info \<lparr>json_loads = (\<lambda>s. None), repr_escaped = (\<lambda>s. s)\<rparr> \<lparr>emit_raises = True, print_raises = False, open_raises = False, write_raises = False\<rparr> \<lparr>socketio = True, console_level = ascii ''INFO'', file_level = ascii ''TRACE'', log_file_path = Some (ascii ''devlop_output/logs/run.log'')\<rparr> (ascii ''2025-01-01 12:00:00.123456'') [PStr (ascii ''hello''), PInt 7] (ascii '' '') [10] = ([Emit (ascii ''log_message'') (ascii ''INFO'') (ascii ''hello 7'') (ascii ''blue'')], Some RuntimeError)"
    unfolding info_def
    using sinks_receive_full_message [where now = "(ascii ''2025-01-01 12:00:00.123456'')" and sep = "(ascii '' '')" and bi = "\<lparr>json_loads = (\<lambda>s. None), repr_escaped = (\<lambda>s. s)\<rparr>" and args = "[PStr (ascii ''hello''), PInt 7]" and color = "ascii ''blue''" and ending = "[10]" and g = "\<lparr>socketio = True, console_level = ascii ''INFO'', file_level = ascii ''TRACE'', log_file_path = Some (ascii ''devlop_output/logs/run.log'')\<rparr>" and io = "\<lparr>emit_raises = True, print_raises = False, open_raises = False, write_raises = False\<rparr>" and level = "ascii ''INFO''", THEN conjunct2, THEN conjunct2, THEN conjunct1]
    by (simp add: hello_message)
  show ?thesis
    using pre blue all same rejected by simp
qed

text \<open>
  Claim C9 as written fails when the channel rejects the event: with a channel the INFO
  entry point ends at the emission and neither sink receives anything, and without a
  channel the same call writes the console line and the file line.
\<close>

theorem sinks_receive_full_message_counterexample:
  "info \<lparr>json_loads = (\<lambda>s. None), repr_escaped = (\<lambda>s. s)\<rparr> \<lparr>emit_raises = True, print_raises = False, open_raises = False, write_raises = False\<rparr> \<lparr>socketio = True, console_level = ascii ''INFO'', file_level = ascii ''TRACE'', log_file_path = Some (ascii ''devlop_output/logs/run.log'')\<rparr> (ascii ''2025-01-01 12:00:00.123456'') [PStr (ascii ''hello''), PInt 7] (ascii '' '') [10] = ([Emit (ascii ''log_message'') (ascii ''INFO'') (ascii ''hello 7'') (ascii ''blue'')], Some RuntimeError)
   \<and> info \<lparr>json_loads = (\<lambda>s. None), repr_escaped = (\<lambda>s. s)\<rparr> \<lparr>emit_raises = True, print_raises = False, open_raises = False, write_raises = False\<rparr> \<lparr>socketio = False, console_level = ascii ''INFO'', file_level = ascii ''TRACE'', log_file_path = Some (ascii ''devlop_output/logs/run.log'')\<rparr> (ascii ''2025-01-01 12:00:00.123456'') [PStr (ascii ''hello''), PInt 7] (ascii '' '') [10] = ([Print (27 # ascii ''[94m'' @ (ascii ''2025-01-01 12:00:00.123 [INFO] hello 7'') @ 27 # ascii ''[0m'' @ [10]), File_open (ascii ''devlop_output/logs/run.log''), File_write (ascii ''devlop_output/logs/run.log'') ((ascii ''2025-01-01 12:00:00.123 [INFO] hello 7'') @ [10]), File_close (ascii ''devlop_output/logs/run.log'')], None)"
proof -
  have "simplify_for_frontend \<lparr>json_loads = (\<lambda>s. None), repr_escaped = (\<lambda>s. s)\<rparr> (ascii ''INFO'') [PStr (ascii ''hello''), PInt 7] = ascii ''hello 7''"
    by (rule hello_message)
  then show ?thesis
    by (simp add: info_def color_print_def should_log_def LEVELS_def console_write_def
        file_write_def COLORS_def py_str_def int_str_def digits.simps ascii_def)
qed

text \<open>
  Claim C1, as amended. A log call does not swallow the failure of a sink. For a call at
  one of the seven severities, with valid thresholds and a known colour, that the
  emission has not ended: when the console line is due and \<^verbatim>\<open>print\<close> raises, the console
  receives nothing, the exception goes past the call and the file is not written; when
  the console line is not due or is printed, and the file line is due and \<^verbatim>\<open>open\<close> or
  \<^verbatim>\<open>write\<close> raises, the file receives nothing and the exception goes past the call.
\<close>

theorem sink_failures_propagate:
  "console_level g = severity_name cl \<and> file_level g = severity_name fl
     \<and> map_of COLORS color = Some c
     \<and> \<not> ((sv = INFO \<or> sv = SPECIAL) \<and> socketio g \<and> emit_raises io)
   \<longrightarrow> (spec_rank cl \<le> spec_rank sv \<and> print_raises io
         \<longrightarrow> color_print bi io g now (severity_name sv) color args sep ending =
             ((if (sv = INFO \<or> sv = SPECIAL) \<and> socketio g
            then [Emit (ascii ''log_message'') (severity_name sv)
                    (simplify_for_frontend bi (severity_name sv) args) color]
            else []),
              Some OSError))
       \<and> (\<not> (spec_rank cl \<le> spec_rank sv \<and> print_raises io)
            \<and> log_file_path g = Some path \<and> path \<noteq> [] \<and> spec_rank fl \<le> spec_rank sv
            \<and> (open_raises io \<or> write_raises io)
         \<longrightarrow> color_print bi io g now (severity_name sv) color args sep ending =
             ((if (sv = INFO \<or> sv = SPECIAL) \<and> socketio g
            then [Emit (ascii ''log_message'') (severity_name sv)
                    (simplify_for_frontend bi (severity_name sv) args) color]
            else [])
              @ (if spec_rank cl \<le> spec_rank sv
                 then [Print (c @ full_message (take (length now - 3) now) (severity_name sv) (py_join sep (map (py_str bi) args))
                              @ 27 # ascii ''[0m'' @ ending)]
                 else [])
              @ (if open_raises io then [] else [File_open path, File_close path]),
              Some OSError))"
proof (intro impI, elim conjE)
  assume valid: "console_level g = severity_name cl" "file_level g = severity_name fl"
    and color: "map_of COLORS color = Some c"
    and emitted: "\<not> ((sv = INFO \<or> sv = SPECIAL) \<and> socketio g \<and> emit_raises io)"
  have accepted: "\<not> emit_rejected io g (severity_name sv)"
    using emitted by (simp add: emit_rejected_def severity_name_INFO severity_name_SPECIAL)
  have pushed: "pushed_events bi g (severity_name sv) color args = (if (sv = INFO \<or> sv = SPECIAL) \<and> socketio g
            then [Emit (ascii ''log_message'') (severity_name sv)
                    (simplify_for_frontend bi (severity_name sv) args) color]
            else [])"
    by (simp add: pushed_events_def severity_name_INFO severity_name_SPECIAL)
  have console_case: "color_print bi io g now (severity_name sv) color args sep ending =
             ((if (sv = INFO \<or> sv = SPECIAL) \<and> socketio g
            then [Emit (ascii ''log_message'') (severity_name sv)
                    (simplify_for_frontend bi (severity_name sv) args) color]
            else []),
              Some OSError)"
    if "spec_rank cl \<le> spec_rank sv" "print_raises io"
    unfolding color_print_accepted [OF accepted] pushed sink_part_valid [OF valid]
    using that by (simp add: console_write_cases color)
  have file_case: "color_print bi io g now (severity_name sv) color args sep ending =
             ((if (sv = INFO \<or> sv = SPECIAL) \<and> socketio g
            then [Emit (ascii ''log_message'') (severity_name sv)
                    (simplify_for_frontend bi (severity_name sv) args) color]
            else [])
              @ (if spec_rank cl \<le> spec_rank sv
                 then [Print (c @ full_message (take (length now - 3) now) (severity_name sv) (py_join sep (map (py_str bi) args))
                              @ 27 # ascii ''[0m'' @ ending)]
                 else [])
              @ (if open_raises io then [] else [File_open path, File_close path]),
              Some OSError)"
    if "\<not> (spec_rank cl \<le> spec_rank sv \<and> print_raises io)" "log_file_path g = Some path"
      "path \<noteq> []" "spec_rank fl \<le> spec_rank sv" "open_raises io \<or> write_raises io"
    unfolding color_print_accepted [OF accepted] pushed sink_part_valid [OF valid]
    using that by (auto simp: console_write_cases color file_write_def)
  show "(spec_rank cl \<le> spec_rank sv \<and> print_raises io
         \<longrightarrow> color_print bi io g now (severity_name sv) color args sep ending =
             ((if (sv = INFO \<or> sv = SPECIAL) \<and> socketio g
            then [Emit (ascii ''log_message'') (severity_name sv)
                    (simplify_for_frontend bi (severity_name sv) args) color]
            else []),
              Some OSError))
       \<and> (\<not> (spec_rank cl \<le> spec_rank sv \<and> print_raises io)
            \<and> log_file_path g = Some path \<and> path \<noteq> [] \<and> spec_rank fl \<le> spec_rank sv
            \<and> (open_raises io \<or> write_raises io)
         \<longrightarrow> color_print bi io g now (severity_name sv) color args sep ending =
             ((if (sv = INFO \<or> sv = SPECIAL) \<and> socketio g
            then [Emit (ascii ''log_message'') (severity_name sv)
                    (simplify_for_frontend bi (severity_name sv) args) color]
            else [])
              @ (if spec_rank cl \<le> spec_rank sv
                 then [Print (c @ full_message (take (length now - 3) now) (severity_name sv) (py_join sep (map (py_str bi) args))
                              @ 27 # ascii ''[0m'' @ ending)]
                 else [])
              @ (if open_raises io then [] else [File_open path, File_close path]),
              Some OSError))"
    using console_case file_case by blast
qed

text \<open>
  The ERROR entry point with a failing print, and with a failing write after the console
  line.
\<close>

theorem sink_failures_propagate_witness:
  "console_level \<lparr>socketio = False, console_level = ascii ''INFO'', file_level = ascii ''TRACE'', log_file_path = Some (ascii ''devlop_output/logs/run.log'')\<rparr> = severity_name INFO
   \<and> file_level \<lparr>socketio = False, console_level = ascii ''INFO'', file_level = ascii ''TRACE'', log_file_path = Some (ascii ''devlop_output/logs/run.log'')\<rparr> = severity_name TRACE
   \<and> map_of COLORS (ascii ''red'') = Some (27 # ascii ''[91m'')
   \<and> error \<lparr>json_loads = (\<lambda>s. None), repr_escaped = (\<lambda>s. s)\<rparr> \<lparr>emit_raises = False, print_raises = True, open_raises = False, write_raises = False\<rparr> \<lparr>socketio = False, console_level = ascii ''INFO'', file_level = ascii ''TRACE'', log_file_path = Some (ascii ''devlop_output/logs/run.log'')\<rparr> (ascii ''2025-01-01 12:00:00.123456'') [PStr (ascii ''hello''), PInt 7] (ascii '' '') [10] = ([], Some OSError)
   \<and> error \<lparr>json_loads = (\<lambda>s. None), repr_escaped = (\<lambda>s. s)\<rparr> \<lparr>emit_raises = False, print_raises = False, open_raises = False, write_raises = True\<rparr> \<lparr>socketio = False, console_level = ascii ''INFO'', file_level = ascii ''TRACE'', log_file_path = Some (ascii ''devlop_output/logs/run.log'')\<rparr> (ascii ''2025-01-01 12:00:00.123456'') [PStr (ascii ''hello''), PInt 7] (ascii '' '') [10]
      = ([Print (27 # ascii ''[91m'' @ (ascii ''2025-01-01 12:00:00.123 [ERROR] hello 7'') @ 27 # ascii ''[0m'' @ [10]), File_open (ascii ''devlop_output/logs/run.log''), File_close (ascii ''devlop_output/logs/run.log'')], Some OSError)"
proof -
  have pre: "console_level \<lparr>socketio = False, console_level = ascii ''INFO'', file_level = ascii ''TRACE'', log_file_path = Some (ascii ''devlop_output/logs/run.log'')\<rparr> = severity_name INFO
      \<and> file_level \<lparr>socketio = False, console_level = ascii ''INFO'', file_level = ascii ''TRACE'', log_file_path = Some (ascii ''devlop_output/logs/run.log'')\<rparr> = severity_name TRACE
      \<and> map_of COLORS (ascii ''red'') = Some (27 # ascii ''[91m'')"
    by (simp add: COLORS_def)
  have name: "ascii ''ERROR'' = severity_name ERROR"
    by simp
  have full: "full_message (take (length (ascii ''2025-01-01 12:00:00.123456'') - 3) (ascii ''2025-01-01 12:00:00.123456'')) (severity_name ERROR)
      (py_join (ascii '' '') (map (py_str \<lparr>json_loads = (\<lambda>s. None), repr_escaped = (\<lambda>s. s)\<rparr>) [PStr (ascii ''hello''), PInt 7])) = (ascii ''2025-01-01 12:00:00.123 [ERROR] hello 7'')"
    using hello_full(2) by simp
  have "error \<lparr>json_loads = (\<lambda>s. None), repr_escaped = (\<lambda>s. s)\<rparr> \<lparr>emit_raises = False, print_raises = True, open_raises = False, write_raises = False\<rparr> \<lparr>socketio = False, console_level = ascii ''INFO'', file_level = ascii ''TRACE'', log_file_path = Some (ascii ''devlop_output/logs/run.log'')\<rparr> (ascii ''2025-01-01 12:00:00.123456'') [PStr (ascii ''hello''), PInt 7] (ascii '' '') [10] = ([], Some OSError)"
    unfolding error_def name
    using pre sink_failures_propagate [where g = "\<lparr>socketio = False, console_level = ascii ''INFO'', file_level = ascii ''TRACE'', log_file_path = Some (ascii ''devlop_output/logs/run.log'')\<rparr>" and cl = INFO and fl = TRACE and color = "ascii ''red''" and c = "27 # ascii ''[91m''" and sv = ERROR and io = "\<lparr>emit_raises = False, print_raises = True, open_raises = False, write_raises = False\<rparr>" and bi = "\<lparr>json_loads = (\<lambda>s. None), repr_escaped = (\<lambda>s. s)\<rparr>" and now = "(ascii ''2025-01-01 12:00:00.123456'')" and args = "[PStr (ascii ''hello''), PInt 7]" and sep = "(ascii '' '')" and ending = "[10]"]
    by simp
  moreover have "error \<lparr>json_loads = (\<lambda>s. None), repr_escaped = (\<lambda>s. s)\<rparr> \<lparr>emit_raises = False, print_raises = False, open_raises = False, write_raises = True\<rparr> \<lparr>socketio = False, console_level = ascii ''INFO'', file_level = ascii ''TRACE'', log_file_path = Some (ascii ''devlop_output/logs/run.log'')\<rparr> (ascii ''2025-01-01 12:00:00.123456'') [PStr (ascii ''hello''), PInt 7] (ascii '' '') [10]
      = ([Print (27 # ascii ''[91m'' @ (ascii ''2025-01-01 12:00:00.123 [ERROR] hello 7'') @ 27 # ascii ''[0m'' @ [10]), File_open (ascii ''devlop_output/logs/run.log''), File_close (ascii ''devlop_output/logs/run.log'')], Some OSError)"
    unfolding error_def name
    using pre sink_failures_propagate [where g = "\<lparr>socketio = False, console_level = ascii ''INFO'', file_level = ascii ''TRACE'', log_file_path = Some (ascii ''devlop_output/logs/run.log'')\<rparr>" and cl = INFO and fl = TRACE and color = "ascii ''red''" and c = "27 # ascii ''[91m''" and sv = ERROR and io = "\<lparr>emit_raises = False, print_raises = False, open_raises = False, write_raises = True\<rparr>" and path = "(ascii ''devlop_output/logs/run.log'')" and bi = "\<lparr>json_loads = (\<lambda>s. None), repr_escaped = (\<lambda>s. s)\<rparr>" and now = "(ascii ''2025-01-01 12:00:00.123456'')" and args = "[PStr (ascii ''hello''), PInt 7]" and sep = "(ascii '' '')" and ending = "[10]"]
    unfolding full
    by (simp add: ascii_def)
  ultimately show ?thesis
    using pre by simp
qed

text \<open>
  Claim C1 as written fails: when the log file cannot be opened, the INFO entry point
  ends with OSError after the console line; when the console cannot be written, it ends
  with OSError at once.
\<close>

theorem sink_failures_propagate_counterexample:
  "info \<lparr>json_loads = (\<lambda>s. None), repr_escaped = (\<lambda>s. s)\<rparr> \<lparr>emit_raises = False, print_raises = False, open_raises = True, write_raises = False\<rparr> \<lparr>socketio = False, console_level = ascii ''INFO'', file_level = ascii ''TRACE'', log_file_path = Some (ascii ''devlop_output/logs/run.log'')\<rparr> (ascii ''2025-01-01 12:00:00.123456'') [PStr (ascii ''hello''), PInt 7] (ascii '' '') [10] = ([Print (27 # ascii ''[94m'' @ (ascii ''2025-01-01 12:00:00.123 [INFO] hello 7'') @ 27 # ascii ''[0m'' @ [10])], Some OSError)
   \<and> info \<lparr>json_loads = (\<lambda>s. None), repr_escaped = (\<lambda>s. s)\<rparr> \<lparr>emit_raises = False, print_raises = True, open_raises = False, write_raises = False\<rparr> \<lparr>socketio = False, console_level = ascii ''INFO'', file_level = ascii ''TRACE'', log_file_path = Some (ascii ''devlop_output/logs/run.log'')\<rparr> (ascii ''2025-01-01 12:00:00.123456'') [PStr (ascii ''hello''), PInt 7] (ascii '' '') [10] = ([], Some OSError)"
  by (simp add: info_def color_print_def should_log_def LEVELS_def console_write_def file_write_def
      COLORS_def py_str_def int_str_def digits.simps ascii_def)

end
